theory Spec2Isabelle
  imports Main
begin

section \<open>Values exchanged with the user interface and the remote services\<close>

text \<open>
  The pages are React components whose handlers await remote calls one after another.
  A handler is embedded as a function from the component state and the responses of the
  remote services to the list of effects it performs, in program order. Strings are
  lists of code units; a nullable TypeScript value is an \<open>option\<close>.
\<close>

datatype js_error = Error (message: string)

datatype toast_variant = Default_variant | Destructive

record toast =
  title :: string
  description :: string
  variant :: toast_variant

datatype user = User (user_id: string)

text \<open>The argument of \<open>supabase.auth.signUp\<close>.\<close>

record signup_request =
  req_email :: string
  req_password :: string
  req_first_name :: string
  req_last_name :: string
  req_emailRedirectTo :: string

text \<open>The body sent to the \<open>create-agent\<close> edge function.\<close>

record agent_request =
  body_resume_text :: string
  body_first_name :: string
  body_last_name :: string
  body_elevenlabs_api_key :: string

text \<open>The patch of \<open>profiles.update\<close> and the payload of \<open>personas.insert\<close>.\<close>

record profile_patch =
  patch_elevenlabs_agent_id :: string
  patch_elevenlabs_agent_link :: string

record persona_insert =
  ins_user_id :: string
  ins_is_public :: bool
  ins_elevenlabs_api_key :: string
  ins_agent_id :: string
  ins_conversation_link :: string
  ins_avatar_url :: string

datatype output_status = Idle | Success | Failure

text \<open>The entry of the public listing (\<open>interface PublicPersona\<close>).\<close>

record public_persona =
  pp_id :: string
  pp_avatar_url :: "string option"
  pp_agent_id :: "string option"
  pp_conversation_link :: string

text \<open>The persona the account page holds (\<open>interface Persona\<close>).\<close>

record account_persona =
  p_id :: string
  p_is_public :: bool
  p_updated_at :: string
  p_avatar_url :: "string option"
  p_conversation_link :: "string option"

datatype event =
    SetErrors "string \<rightharpoonup> string"
  | SetIsLoading bool
  | SetLoading bool
  | SetSaving bool
  | SetPersonas "public_persona list"
  | SetPersona account_persona
  | ShowToast toast
  | Navigate string
  | NavigateAfter nat string
  | ConsoleError string
  | SetPersonaOutput output_status string
  | Auth_signUp signup_request
  | Functions_invoke string agent_request
  | Profiles_select_names string
  | Profiles_update profile_patch string
  | Personas_insert persona_insert
  | Personas_select_public
  | Personas_update_is_public bool string

text \<open>The effects that reach a remote service.\<close>

fun is_network_call :: "event \<Rightarrow> bool" where
  "is_network_call (Auth_signUp _) = True"
| "is_network_call (Functions_invoke _ _) = True"
| "is_network_call (Profiles_select_names _) = True"
| "is_network_call (Profiles_update _ _) = True"
| "is_network_call (Personas_insert _) = True"
| "is_network_call Personas_select_public = True"
| "is_network_call (Personas_update_is_public _ _) = True"
| "is_network_call _ = False"

definition network_calls :: "event list \<Rightarrow> event list" where
  "network_calls tr = filter is_network_call tr"

text \<open>The notices shown to the user, in order.\<close>

fun toasts :: "event list \<Rightarrow> toast list" where
  "toasts [] = []"
| "toasts (ShowToast t # tr) = t # toasts tr"
| "toasts (_ # tr) = toasts tr"

text \<open>The \<open>errors\<close> state of the sign-up page after a run of effects, from the state before it.\<close>

fun errors_after :: "(string \<rightharpoonup> string) \<Rightarrow> event list \<Rightarrow> (string \<rightharpoonup> string)" where
  "errors_after m [] = m"
| "errors_after m (SetErrors m' # tr) = errors_after m' tr"
| "errors_after m (_ # tr) = errors_after m tr"

section \<open>Responses of the remote services\<close>

record signup_response =
  data_user :: "user option"
  auth_error :: "js_error option"

datatype agent_data = AgentData (agent_id: string)

record agent_response =
  agent_data :: "agent_data option"
  agent_error :: "js_error option"

record profile_names =
  first_name :: "string option"
  last_name :: "string option"

text \<open>
  The services are outside the repository: a handler is run against an environment that
  answers each request. Every handler issues each kind of request at most once.
\<close>

record remote =
  signUp :: "signup_request \<Rightarrow> signup_response"
  invoke_create_agent :: "agent_request \<Rightarrow> agent_response"
  select_profile_names :: "string \<Rightarrow> profile_names option"
  update_profile :: "profile_patch \<Rightarrow> string \<Rightarrow> js_error option"
  insert_persona :: "persona_insert \<Rightarrow> js_error option"

section \<open>String helpers of the host language\<close>

text \<open>
  \<open>String.prototype.trim\<close> removes white space at both ends. On code units below 256
  the white space and line terminator characters are tab, line feed, vertical tab,
  form feed, carriage return, space and no-break space.
\<close>

definition is_white_space :: "char \<Rightarrow> bool" where
  "is_white_space c = (of_char c \<in> {9, 10, 11, 12, 13, 32, 160 :: nat})"

definition trim :: "string \<Rightarrow> string" where
  "trim s = rev (dropWhile is_white_space (rev (dropWhile is_white_space s)))"

text \<open>Truthiness of a nullable string: \<open>null\<close> and the empty string are falsy.\<close>

definition truthy :: "string option \<Rightarrow> bool" where
  "truthy v = (case v of None \<Rightarrow> False | Some s \<Rightarrow> s \<noteq> [])"

text \<open>\<open>a || b\<close> on strings: the empty string is falsy.\<close>

definition or_else :: "string \<Rightarrow> string \<Rightarrow> string" where
  "or_else a b = (if a = [] then b else a)"

text \<open>
  Reading \<open>agent_id\<close> of a \<open>null\<close> response body throws a \<open>TypeError\<close>; its message is
  the engine's.
\<close>

definition null_agent_data_error :: js_error where
  "null_agent_data_error = Error ''Cannot read properties of null (reading 'agent_id')''"

section \<open>Sign-up page\<close>

text \<open>
  Both provisioning pages hold the resume text, the visibility selection and the API
  key; the sign-up page adds the registration fields.
\<close>

record persona_form =
  resumeText :: string
  isPublic :: string
  elevenLabsApiKey :: string

record signup_form = persona_form +
  email :: string
  password :: string
  firstName :: string
  lastName :: string

text \<open>The state the component starts with (\<open>useState\<close> initial values).\<close>

definition SignUp_initial :: signup_form where
  "SignUp_initial = \<lparr> resumeText = [], isPublic = ''public'', elevenLabsApiKey = [],
     email = [], password = [], firstName = [], lastName = [] \<rparr>"

text \<open>The error record the page starts with (\<open>useState<Record<string, string>>({})\<close>).\<close>

definition initial_errors :: "string \<rightharpoonup> string" where
  "initial_errors = Map.empty"

text \<open>
  \<open>signUpSchema.safeParse\<close>: every field is checked and the issues are collected in the
  order of the schema, each with the path of its field. The shape test behind
  \<open>z.string().email\<close> belongs to the validation library and is a parameter.
\<close>

definition signUpSchema_safeParse ::
  "(string \<Rightarrow> bool) \<Rightarrow> signup_form \<Rightarrow> (string \<times> string) list" where
  "signUpSchema_safeParse is_email f =
     (if is_email (email f) then [] else [(''email'', ''Please enter a valid email address'')]) @
     (if 8 \<le> length (password f) then []
      else [(''password'', ''Password must be at least 8 characters'')]) @
     (if 1 \<le> length (firstName f) then [] else [(''firstName'', ''First name is required'')]) @
     (if 1 \<le> length (lastName f) then [] else [(''lastName'', ''Last name is required'')])"

text \<open>The \<open>forEach\<close> that fills \<open>fieldErrors\<close>: a later issue overwrites an earlier one.\<close>

fun fieldErrors_of :: "(string \<times> string) list \<Rightarrow> (string \<rightharpoonup> string) \<Rightarrow> (string \<rightharpoonup> string)" where
  "fieldErrors_of [] m = m"
| "fieldErrors_of ((path, msg) # errs) m = fieldErrors_of errs (m(path \<mapsto> msg))"

text \<open>
  The body of the \<open>try\<close> block of the sign-up handler: the effects performed, and the
  error thrown, if any.
\<close>

definition SignUp_try :: "remote \<Rightarrow> signup_form \<Rightarrow> user \<Rightarrow> event list \<times> js_error option" where
  "SignUp_try env f u =
     (let areq = \<lparr> body_resume_text = resumeText f, body_first_name = firstName f,
                   body_last_name = lastName f, body_elevenlabs_api_key = elevenLabsApiKey f \<rparr>;
          ares = invoke_create_agent env areq
      in case agent_error ares of
           Some e \<Rightarrow> ([Functions_invoke ''create-agent'' areq], Some e)
         | None \<Rightarrow>
            (case agent_data ares of
               None \<Rightarrow> ([Functions_invoke ''create-agent'' areq], Some null_agent_data_error)
             | Some d \<Rightarrow>
                (let avatarUrl = ''https://api.dicebear.com/7.x/pixel-art/svg?seed='' @ user_id u
                                   @ ''&scale=100'';
                     conversationLink = ''https://elevenlabs.io/app/talk-to?agent_id='' @ agent_id d;
                     patch = \<lparr> patch_elevenlabs_agent_id = agent_id d,
                               patch_elevenlabs_agent_link = conversationLink \<rparr>;
                     row = \<lparr> ins_user_id = user_id u, ins_is_public = (isPublic f = ''public''),
                             ins_elevenlabs_api_key = elevenLabsApiKey f, ins_agent_id = agent_id d,
                             ins_conversation_link = conversationLink, ins_avatar_url = avatarUrl \<rparr>
                 in ([Functions_invoke ''create-agent'' areq, Profiles_update patch (user_id u)]
                     @ (case update_profile env patch (user_id u) of
                          Some e \<Rightarrow> [ConsoleError ''Profile update error:'']
                        | None \<Rightarrow> [])
                     @ [Personas_insert row],
                     insert_persona env row))))"

text \<open>\<open>handleSubmit\<close> of the sign-up page; \<open>origin\<close> is \<open>window.location.origin\<close>.\<close>

definition SignUp_handleSubmit ::
  "(string \<Rightarrow> bool) \<Rightarrow> string \<Rightarrow> remote \<Rightarrow> signup_form \<Rightarrow> event list" where
  "SignUp_handleSubmit is_email origin env f =
     SetErrors Map.empty #
     (let issues = signUpSchema_safeParse is_email f in
      if issues \<noteq> [] then [SetErrors (fieldErrors_of issues Map.empty)]
      else if trim (resumeText f) = [] then
        [ShowToast \<lparr> title = ''Resume Required'',
            description = ''Please paste your resume or upload a document.'',
            variant = Destructive \<rparr>]
      else if elevenLabsApiKey f = [] then
        [ShowToast \<lparr> title = ''API Key Required'',
            description = ''Please provide your ElevenLabs API key.'',
            variant = Destructive \<rparr>]
      else
        (let sreq = \<lparr> req_email = email f, req_password = password f,
                       req_first_name = firstName f, req_last_name = lastName f,
                       req_emailRedirectTo = origin @ ''/'' \<rparr>;
             sres = signUp env sreq
         in [SetIsLoading True, Auth_signUp sreq] @
            (case auth_error sres of
               Some e \<Rightarrow>
                 [SetIsLoading False,
                  ShowToast \<lparr> title = ''Sign up failed'',
                     description = (if message e = ''User already registered''
                        then ''An account with this email already exists. Please sign in.''
                        else message e),
                     variant = Destructive \<rparr>]
             | None \<Rightarrow>
                (case data_user sres of
                   None \<Rightarrow>
                     [SetIsLoading False,
                      ShowToast \<lparr> title = ''Check your email'',
                         description = ''Please verify your email to complete registration.'',
                         variant = Default_variant \<rparr>,
                      Navigate ''/'']
                 | Some u \<Rightarrow>
                    (case SignUp_try env f u of
                       (evs, Some e) \<Rightarrow>
                         evs @
                         [SetIsLoading False,
                          ShowToast \<lparr> title = ''Error Creating Persona'',
                             description = or_else (message e) ''An unexpected error occurred.'',
                             variant = Destructive \<rparr>]
                     | (evs, None) \<Rightarrow>
                         evs @
                         [SetIsLoading False,
                          ShowToast \<lparr> title = ''Account created!'',
                             description = ''Your persona has been set up successfully.'',
                             variant = Default_variant \<rparr>,
                          Navigate ''/account''])))))"

section \<open>Create-persona page\<close>

definition CreatePersona_initial :: persona_form where
  "CreatePersona_initial = \<lparr> resumeText = [], isPublic = ''private'', elevenLabsApiKey = [] \<rparr>"

definition missing_names_error :: js_error where
  "missing_names_error = Error ''Please ensure your profile has a first and last name.''"

text \<open>
  The part of the \<open>try\<close> block after the profile has been read and found to carry
  both names.
\<close>

definition CreatePersona_provision ::
  "remote \<Rightarrow> persona_form \<Rightarrow> user \<Rightarrow> string \<Rightarrow> string \<Rightarrow> event list \<times> js_error option" where
  "CreatePersona_provision env f u fn ln =
     (let areq = \<lparr> body_resume_text = resumeText f, body_first_name = fn,
                   body_last_name = ln, body_elevenlabs_api_key = elevenLabsApiKey f \<rparr>;
          ares = invoke_create_agent env areq
      in case agent_error ares of
           Some e \<Rightarrow> ([Functions_invoke ''create-agent'' areq], Some e)
         | None \<Rightarrow>
            (case agent_data ares of
               None \<Rightarrow> ([Functions_invoke ''create-agent'' areq], Some null_agent_data_error)
             | Some d \<Rightarrow>
                (let avatarUrl = ''https://api.dicebear.com/7.x/pixel-art/svg?seed='' @ user_id u
                                   @ ''&scale=100'';
                     conversationLink = ''https://elevenlabs.io/app/talk-to?agent_id='' @ agent_id d;
                     row = \<lparr> ins_user_id = user_id u, ins_is_public = (isPublic f = ''public''),
                             ins_elevenlabs_api_key = elevenLabsApiKey f, ins_agent_id = agent_id d,
                             ins_conversation_link = conversationLink, ins_avatar_url = avatarUrl \<rparr>;
                     patch = \<lparr> patch_elevenlabs_agent_id = agent_id d,
                               patch_elevenlabs_agent_link = conversationLink \<rparr>
                 in case insert_persona env row of
                      Some e \<Rightarrow>
                        ([Functions_invoke ''create-agent'' areq, Personas_insert row], Some e)
                    | None \<Rightarrow>
                        ([Functions_invoke ''create-agent'' areq, Personas_insert row,
                          Profiles_update patch (user_id u),
                          SetPersonaOutput Success ''Persona created successfully! Redirecting...'',
                          ShowToast \<lparr> title = ''Success!'',
                             description = ''Your persona is ready.'',
                             variant = Default_variant \<rparr>,
                          NavigateAfter 2000 ''/account''], None))))"

text \<open>
  The \<open>try\<close> block: the profile is read first; \<open>!profile?.first_name\<close> holds for a
  missing profile, a \<open>null\<close> name and an empty name.
\<close>

definition CreatePersona_try :: "remote \<Rightarrow> persona_form \<Rightarrow> user \<Rightarrow> event list \<times> js_error option" where
  "CreatePersona_try env f u =
     (let stop = ([Profiles_select_names (user_id u)], Some missing_names_error) in
      case select_profile_names env (user_id u) of
        None \<Rightarrow> stop
      | Some profile \<Rightarrow>
         (case first_name profile of
            None \<Rightarrow> stop
          | Some fn \<Rightarrow>
             (case last_name profile of
                None \<Rightarrow> stop
              | Some ln \<Rightarrow>
                 if fn = [] \<or> ln = [] then stop
                 else (case CreatePersona_provision env f u fn ln of
                         (evs, thrown) \<Rightarrow> (Profiles_select_names (user_id u) # evs, thrown)))))"

text \<open>\<open>handleSubmit\<close> of the create-persona page; \<open>usr\<close> is the signed-in user, if any.\<close>

definition CreatePersona_handleSubmit :: "remote \<Rightarrow> user option \<Rightarrow> persona_form \<Rightarrow> event list" where
  "CreatePersona_handleSubmit env usr f =
     (if trim (resumeText f) = [] then
        [ShowToast \<lparr> title = ''Resume Required'',
            description = ''Please upload a resume or paste text.'',
            variant = Destructive \<rparr>]
      else if trim (elevenLabsApiKey f) = [] then
        [ShowToast \<lparr> title = ''API Key Required'',
            description = ''Please provide your ElevenLabs API key.'',
            variant = Destructive \<rparr>]
      else case usr of
        None \<Rightarrow>
          [ShowToast \<lparr> title = ''Not Authenticated'',
              description = ''Please sign in to create a persona.'',
              variant = Destructive \<rparr>]
      | Some u \<Rightarrow>
          [SetIsLoading True, SetPersonaOutput Idle []] @
          (case CreatePersona_try env f u of
             (evs, Some e) \<Rightarrow>
               evs @
               [ConsoleError ''Error:'',
                SetPersonaOutput Failure (message e),
                ShowToast \<lparr> title = ''Error'', description = message e,
                   variant = Destructive \<rparr>]
           | (evs, None) \<Rightarrow> evs) @
          [SetIsLoading False])"

section \<open>The personas table and its row-level policies\<close>

text \<open>
  A row of \<open>public.personas\<close>. The nullable text columns are options; timestamps are
  points on a clock.
\<close>

record persona_row =
  row_id :: string
  row_user_id :: string
  row_is_public :: bool
  row_elevenlabs_api_key :: "string option"
  row_agent_id :: "string option"
  row_conversation_link :: "string option"
  row_avatar_url :: "string option"
  row_created_at :: nat
  row_updated_at :: nat

text \<open>The column default \<open>is_public BOOLEAN NOT NULL DEFAULT false\<close>.\<close>

definition is_public_default :: bool where
  "is_public_default = False"





text \<open>
  The policies of the migration. \<open>auth.uid()\<close> is the caller's identity, \<open>NULL\<close> for an
  anonymous caller, and a comparison with \<open>NULL\<close> is not true.
\<close>

definition Users_can_view_their_own_persona :: "string option \<Rightarrow> persona_row \<Rightarrow> bool" where
  "Users_can_view_their_own_persona uid r = (uid = Some (row_user_id r))"

definition Anyone_can_view_public_personas :: "string option \<Rightarrow> persona_row \<Rightarrow> bool" where
  "Anyone_can_view_public_personas uid r = (row_is_public r = True)"

definition Users_can_update_their_own_persona :: "string option \<Rightarrow> persona_row \<Rightarrow> bool" where
  "Users_can_update_their_own_persona uid r = (uid = Some (row_user_id r))"

text \<open>
  The two \<open>SELECT\<close> policies are permissive: a row is visible when one of them admits
  it. The migration grants or revokes no column privilege, so a visible row is visible
  with all its columns.
\<close>

definition select_policy :: "string option \<Rightarrow> persona_row \<Rightarrow> bool" where
  "select_policy uid r =
     (Users_can_view_their_own_persona uid r \<or> Anyone_can_view_public_personas uid r)"




text \<open>The trigger function \<open>update_updated_at_column\<close>, run before every row update.\<close>

definition update_updated_at_column :: "nat \<Rightarrow> persona_row \<Rightarrow> persona_row" where
  "update_updated_at_column now new = new\<lparr> row_updated_at := now \<rparr>"

text \<open>
  \<open>from('personas').update({ is_public: v }).eq('id', pid)\<close> issued by the caller \<open>uid\<close>
  at time \<open>now\<close>: the rows with that id which the caller may see and update get the new
  value and pass through the trigger; a row the policies exclude is skipped silently.
\<close>

definition personas_update_is_public ::
  "string option \<Rightarrow> string \<Rightarrow> bool \<Rightarrow> nat \<Rightarrow> persona_row list \<Rightarrow> persona_row list" where
  "personas_update_is_public uid pid v now rows =
     map (\<lambda>r. if row_id r = pid \<and> select_policy uid r \<and> Users_can_update_their_own_persona uid r
               then update_updated_at_column now (r\<lparr> row_is_public := v \<rparr>)
               else r) rows"

text \<open>
  The call as the client sees it: a fault of the transport or the server leaves the table
  as it was and is returned as the error; otherwise the update is applied and no error
  is returned.
\<close>

definition personas_update_call ::
  "js_error option \<Rightarrow> string option \<Rightarrow> string \<Rightarrow> bool \<Rightarrow> nat \<Rightarrow> persona_row list
     \<Rightarrow> persona_row list \<times> js_error option" where
  "personas_update_call fault uid pid v now rows =
     (case fault of
        Some e \<Rightarrow> (rows, Some e)
      | None \<Rightarrow> (personas_update_is_public uid pid v now rows, None))"

section \<open>Account page: the visibility toggle\<close>

record account_state =
  persona :: "account_persona option"
  visibility :: string
  saving :: bool

text \<open>The label the page selects for a stored value (\<open>is_public ? 'public' : 'private'\<close>).\<close>

definition visibility_label :: "bool \<Rightarrow> string" where
  "visibility_label b = (if b then ''public'' else ''private'')"

text \<open>
  \<open>handleVisibilitySave\<close>, run by the caller \<open>uid\<close> at time \<open>now\<close> against the table: the
  component state and the table afterwards, and the effects in program order.
\<close>

definition handleVisibilitySave ::
  "js_error option \<Rightarrow> string option \<Rightarrow> nat \<Rightarrow> account_state \<times> persona_row list
     \<Rightarrow> (account_state \<times> persona_row list) \<times> event list" where
  "handleVisibilitySave fault uid now s =
     (case s of (st, rows) \<Rightarrow>
      (case persona st of
         None \<Rightarrow> ((st, rows), [])
       | Some p \<Rightarrow>
          (let v = (visibility st = ''public'') in
           case personas_update_call fault uid (p_id p) v now rows of
             (rows', Some e) \<Rightarrow>
               ((st\<lparr> saving := False \<rparr>, rows'),
                [SetSaving True, Personas_update_is_public v (p_id p), SetSaving False,
                 ShowToast \<lparr> title = ''Error'', description = ''Could not update visibility.'',
                    variant = Destructive \<rparr>])
           | (rows', None) \<Rightarrow>
               ((st\<lparr> saving := False, persona := Some (p\<lparr> p_is_public := v \<rparr>) \<rparr>, rows'),
                [SetSaving True, Personas_update_is_public v (p_id p), SetSaving False,
                 ShowToast \<lparr> title = ''Saved'', description = ''Visibility settings updated.'',
                    variant = Default_variant \<rparr>,
                 SetPersona (p\<lparr> p_is_public := v \<rparr>)]))))"

section \<open>Public listing page\<close>

text \<open>A row of the response: the three selected columns.\<close>

record fetched_row =
  fetched_id :: string
  fetched_avatar_url :: "string option"
  fetched_agent_id :: "string option"

record fetch_response =
  fetch_data :: "fetched_row list option"
  fetch_error :: "js_error option"

text \<open>A nullable string inside a template literal: \<open>null\<close> is printed as its name.\<close>

definition interpolate :: "string option \<Rightarrow> string" where
  "interpolate v = (case v of None \<Rightarrow> ''null'' | Some s \<Rightarrow> s)"

definition formattedPersona :: "fetched_row \<Rightarrow> public_persona" where
  "formattedPersona p =
     \<lparr> pp_id = fetched_id p, pp_avatar_url = fetched_avatar_url p,
       pp_agent_id = fetched_agent_id p,
       pp_conversation_link =
         ''https://elevenlabs.io/app/talk-to?agent_id='' @ interpolate (fetched_agent_id p) \<rparr>"

definition fetchPublicPersonas :: "fetch_response \<Rightarrow> event list" where
  "fetchPublicPersonas res =
     [SetLoading True, Personas_select_public] @
     (case fetch_error res of
        Some e \<Rightarrow>
          [ConsoleError ''Error fetching public personas:'',
           ShowToast \<lparr> title = ''Error'', description = ''Could not fetch public personas.'',
              variant = Destructive \<rparr>,
           SetPersonas []]
      | None \<Rightarrow>
          [SetPersonas
             (map formattedPersona
                (filter (\<lambda>p. truthy (fetched_agent_id p))
                   (case fetch_data res of None \<Rightarrow> [] | Some d \<Rightarrow> d)))]) @
     [SetLoading False]"

text \<open>
  The \<open>personas\<close> state after a run of effects, from the state before it: the page
  shows one card for each entry.
\<close>

fun displayed :: "public_persona list \<Rightarrow> event list \<Rightarrow> public_persona list" where
  "displayed ps [] = ps"
| "displayed ps (SetPersonas ps' # tr) = displayed ps' tr"
| "displayed ps (_ # tr) = displayed ps tr"

section \<open>Example data\<close>

text \<open>
  A concrete environment in which every service succeeds, and filled-in forms whose
  visibility selection is the initial one of their page.
\<close>

definition example_is_email :: "string \<Rightarrow> bool" where
  "example_is_email s = (CHR ''@'' \<in> set s)"

definition example_remote :: remote where
  "example_remote =
     \<lparr> signUp = (\<lambda>req. \<lparr> data_user = Some (User ''u1''), auth_error = None \<rparr>),
       invoke_create_agent = (\<lambda>req. \<lparr> agent_data = Some (AgentData ''abc123''), agent_error = None \<rparr>),
       select_profile_names = (\<lambda>uid. Some \<lparr> first_name = Some ''Ada'', last_name = Some ''Byron'' \<rparr>),
       update_profile = (\<lambda>patch uid. None),
       insert_persona = (\<lambda>row. None) \<rparr>"

definition example_signup_form :: signup_form where
  "example_signup_form = SignUp_initial \<lparr> resumeText := ''Engineer, ten years.'',
     elevenLabsApiKey := ''sk_live_1'', email := ''ada@example.com'', password := ''correct horse'',
     firstName := ''Ada'', lastName := ''Byron'' \<rparr>"

definition example_persona_form :: persona_form where
  "example_persona_form = CreatePersona_initial \<lparr> resumeText := ''Engineer, ten years.'',
     elevenLabsApiKey := ''sk_live_1'' \<rparr>"


text \<open>Environments in which identity creation, or agent provisioning, fails with a given message.\<close>

definition failing_signUp :: "string \<Rightarrow> remote" where
  "failing_signUp msg =
     \<lparr> signUp = (\<lambda>req. \<lparr> data_user = None, auth_error = Some (Error msg) \<rparr>),
       invoke_create_agent = (\<lambda>req. \<lparr> agent_data = Some (AgentData ''abc123''), agent_error = None \<rparr>),
       select_profile_names = (\<lambda>uid. None),
       update_profile = (\<lambda>patch uid. None),
       insert_persona = (\<lambda>row. None) \<rparr>"

definition failing_agent :: "string \<Rightarrow> remote" where
  "failing_agent msg =
     \<lparr> signUp = (\<lambda>req. \<lparr> data_user = Some (User ''u1''), auth_error = None \<rparr>),
       invoke_create_agent = (\<lambda>req. \<lparr> agent_data = None, agent_error = Some (Error msg) \<rparr>),
       select_profile_names = (\<lambda>uid. Some \<lparr> first_name = Some ''Ada'', last_name = Some ''Byron'' \<rparr>),
       update_profile = (\<lambda>patch uid. None),
       insert_persona = (\<lambda>row. None) \<rparr>"

text \<open>The store rejects the persona row; the profile lacks a last name.\<close>

definition failing_insert :: "string \<Rightarrow> remote" where
  "failing_insert msg = example_remote \<lparr> insert_persona := (\<lambda>row. Some (Error msg)) \<rparr>"

definition nameless_profile :: remote where
  "nameless_profile = example_remote \<lparr> select_profile_names :=
     (\<lambda>uid. Some \<lparr> first_name = Some ''Ada'', last_name = None \<rparr>) \<rparr>"

text \<open>A table with a public persona of \<open>u1\<close> and a private one of \<open>u2\<close>, and the account page of \<open>u1\<close>.\<close>

definition example_rows :: "persona_row list" where
  "example_rows =
     [\<lparr> row_id = ''p1'', row_user_id = ''u1'', row_is_public = True,
        row_elevenlabs_api_key = Some ''sk_live_1'', row_agent_id = Some ''abc123'',
        row_conversation_link = Some ''https://elevenlabs.io/app/talk-to?agent_id=abc123'',
        row_avatar_url = Some ''https://api.dicebear.com/7.x/pixel-art/svg?seed=u1&scale=100'',
        row_created_at = 10, row_updated_at = 10 \<rparr>,
      \<lparr> row_id = ''p2'', row_user_id = ''u2'', row_is_public = False,
        row_elevenlabs_api_key = Some ''sk_live_2'', row_agent_id = None,
        row_conversation_link = None, row_avatar_url = None,
        row_created_at = 20, row_updated_at = 20 \<rparr>]"

definition example_account :: account_state where
  "example_account =
     \<lparr> persona = Some \<lparr> p_id = ''p1'', p_is_public = True, p_updated_at = ''2025-12-23'',
         p_avatar_url = Some ''https://api.dicebear.com/7.x/pixel-art/svg?seed=u1&scale=100'',
         p_conversation_link = Some ''https://elevenlabs.io/app/talk-to?agent_id=abc123'' \<rparr>,
       visibility = ''public'', saving = False \<rparr>"

text \<open>
  Responses of the listing query: two rows of which one has no agent, two rows of which
  one has an empty agent id and the other none, and a failed fetch.
\<close>

definition example_fetch :: fetch_response where
  "example_fetch =
     \<lparr> fetch_data = Some
         [\<lparr> fetched_id = ''p1'',
            fetched_avatar_url = Some ''https://api.dicebear.com/7.x/pixel-art/svg?seed=u1&scale=100'',
            fetched_agent_id = Some ''abc123'' \<rparr>,
          \<lparr> fetched_id = ''p3'', fetched_avatar_url = None, fetched_agent_id = None \<rparr>],
       fetch_error = None \<rparr>"

definition empty_agent_fetch :: fetch_response where
  "empty_agent_fetch =
     \<lparr> fetch_data = Some
         [\<lparr> fetched_id = ''p4'', fetched_avatar_url = None, fetched_agent_id = Some [] \<rparr>,
          \<lparr> fetched_id = ''p3'', fetched_avatar_url = None, fetched_agent_id = None \<rparr>],
       fetch_error = None \<rparr>"

definition failed_fetch :: fetch_response where
  "failed_fetch = \<lparr> fetch_data = None, fetch_error = Some (Error ''Failed to fetch'') \<rparr>"

section \<open>Facts about the provisioning handlers\<close>

text \<open>
  What a persona row sent to the store consists of, and where in a handler it can come
  from.
\<close>

lemma SignUp_try_insert:
  assumes "Personas_insert row \<in> set (fst (SignUp_try env f u))"
  shows "ins_user_id row = user_id u
       \<and> (\<exists>d. agent_data (invoke_create_agent env
                 \<lparr> body_resume_text = resumeText f, body_first_name = firstName f,
                   body_last_name = lastName f, body_elevenlabs_api_key = elevenLabsApiKey f \<rparr>)
               = Some d \<and> ins_agent_id row = agent_id d)
       \<and> ins_is_public row = (isPublic f = ''public'')
       \<and> ins_elevenlabs_api_key row = elevenLabsApiKey f
       \<and> ins_conversation_link row
           = ''https://elevenlabs.io/app/talk-to?agent_id='' @ ins_agent_id row
       \<and> ins_avatar_url row
           = ''https://api.dicebear.com/7.x/pixel-art/svg?seed='' @ ins_user_id row @ ''&scale=100''"
  using assms by (auto simp: SignUp_try_def Let_def split: option.splits)

lemma SignUp_handleSubmit_insert:
  assumes "Personas_insert row \<in> set (SignUp_handleSubmit is_email origin env f)"
  shows "\<exists>u.
           data_user (signUp env \<lparr> req_email = email f, req_password = password f,
              req_first_name = firstName f, req_last_name = lastName f,
              req_emailRedirectTo = origin @ ''/'' \<rparr>) = Some u
         \<and> Personas_insert row \<in> set (fst (SignUp_try env f u))"
  using assms
  by (auto simp: SignUp_handleSubmit_def Let_def split: option.splits if_splits prod.splits)
     (metis fst_conv)+

lemma CreatePersona_provision_insert:
  assumes "Personas_insert row \<in> set (fst (CreatePersona_provision env f u fn ln))"
  shows "ins_user_id row = user_id u
       \<and> (\<exists>d. agent_data (invoke_create_agent env
                 \<lparr> body_resume_text = resumeText f, body_first_name = fn,
                   body_last_name = ln, body_elevenlabs_api_key = elevenLabsApiKey f \<rparr>)
               = Some d \<and> ins_agent_id row = agent_id d)
       \<and> ins_is_public row = (isPublic f = ''public'')
       \<and> ins_elevenlabs_api_key row = elevenLabsApiKey f
       \<and> ins_conversation_link row
           = ''https://elevenlabs.io/app/talk-to?agent_id='' @ ins_agent_id row
       \<and> ins_avatar_url row
           = ''https://api.dicebear.com/7.x/pixel-art/svg?seed='' @ ins_user_id row @ ''&scale=100''"
  using assms by (auto simp: CreatePersona_provision_def Let_def split: option.splits)

lemma CreatePersona_handleSubmit_insert:
  assumes "Personas_insert row \<in> set (CreatePersona_handleSubmit env usr f)"
  shows "\<exists>u fn ln. usr = Some u
         \<and> Personas_insert row \<in> set (fst (CreatePersona_provision env f u fn ln))"
  using assms
  by (auto simp: CreatePersona_handleSubmit_def CreatePersona_try_def Let_def
           split: option.splits if_splits prod.splits)
     (metis fst_conv)+



text \<open>The complete runs of both handlers on the example data.\<close>

lemma example_signup_run:
  "SignUp_handleSubmit example_is_email ''https://app.example'' example_remote example_signup_form =
     [SetErrors Map.empty, SetIsLoading True,
      Auth_signUp \<lparr> req_email = ''ada@example.com'', req_password = ''correct horse'',
        req_first_name = ''Ada'', req_last_name = ''Byron'',
        req_emailRedirectTo = ''https://app.example/'' \<rparr>,
      Functions_invoke ''create-agent''
        \<lparr> body_resume_text = ''Engineer, ten years.'', body_first_name = ''Ada'',
          body_last_name = ''Byron'', body_elevenlabs_api_key = ''sk_live_1'' \<rparr>,
      Profiles_update \<lparr> patch_elevenlabs_agent_id = ''abc123'',
          patch_elevenlabs_agent_link = ''https://elevenlabs.io/app/talk-to?agent_id=abc123'' \<rparr> ''u1'',
      Personas_insert \<lparr> ins_user_id = ''u1'', ins_is_public = True,
          ins_elevenlabs_api_key = ''sk_live_1'', ins_agent_id = ''abc123'',
          ins_conversation_link = ''https://elevenlabs.io/app/talk-to?agent_id=abc123'',
          ins_avatar_url = ''https://api.dicebear.com/7.x/pixel-art/svg?seed=u1&scale=100'' \<rparr>,
      SetIsLoading False,
      ShowToast \<lparr> title = ''Account created!'',
         description = ''Your persona has been set up successfully.'',
         variant = Default_variant \<rparr>,
      Navigate ''/account'']"
  by (simp add: SignUp_handleSubmit_def SignUp_try_def example_is_email_def example_remote_def
        example_signup_form_def SignUp_initial_def signUpSchema_safeParse_def trim_def
        is_white_space_def Let_def)

lemma example_create_run:
  "CreatePersona_handleSubmit example_remote (Some (User ''u1'')) example_persona_form =
     [SetIsLoading True, SetPersonaOutput Idle [],
      Profiles_select_names ''u1'',
      Functions_invoke ''create-agent''
        \<lparr> body_resume_text = ''Engineer, ten years.'', body_first_name = ''Ada'',
          body_last_name = ''Byron'', body_elevenlabs_api_key = ''sk_live_1'' \<rparr>,
      Personas_insert \<lparr> ins_user_id = ''u1'', ins_is_public = False,
          ins_elevenlabs_api_key = ''sk_live_1'', ins_agent_id = ''abc123'',
          ins_conversation_link = ''https://elevenlabs.io/app/talk-to?agent_id=abc123'',
          ins_avatar_url = ''https://api.dicebear.com/7.x/pixel-art/svg?seed=u1&scale=100'' \<rparr>,
      Profiles_update \<lparr> patch_elevenlabs_agent_id = ''abc123'',
          patch_elevenlabs_agent_link = ''https://elevenlabs.io/app/talk-to?agent_id=abc123'' \<rparr> ''u1'',
      SetPersonaOutput Success ''Persona created successfully! Redirecting...'',
      ShowToast \<lparr> title = ''Success!'', description = ''Your persona is ready.'',
         variant = Default_variant \<rparr>,
      NavigateAfter 2000 ''/account'',
      SetIsLoading False]"
  by (simp add: CreatePersona_handleSubmit_def CreatePersona_try_def CreatePersona_provision_def
        example_remote_def example_persona_form_def CreatePersona_initial_def trim_def
        is_white_space_def Let_def)

section \<open>Derived links\<close>

text \<open>
  Claim C2. In both provisioning entry points the persona row sent to the store carries
  the identity's id and the agent id returned by the provisioner, its conversation link
  is the fixed prefix \<open>https://elevenlabs.io/app/talk-to?agent_id=\<close> followed by that agent
  id, and its avatar URL is \<open>https://api.dicebear.com/7.x/pixel-art/svg?seed=\<close>, the
  identity's id and \<open>&scale=100\<close>: both are functions of the agent id and of the identity
  id alone, and the same in the sign-up and the create-persona handler.
\<close>

theorem derived_links:
  "(Personas_insert row \<in> set (SignUp_handleSubmit is_email origin env f) \<longrightarrow>
      (\<exists>req. data_user (signUp env req) = Some (User (ins_user_id row)))
    \<and> (\<exists>req. agent_data (invoke_create_agent env req) = Some (AgentData (ins_agent_id row)))
    \<and> ins_conversation_link row
        = ''https://elevenlabs.io/app/talk-to?agent_id='' @ ins_agent_id row
    \<and> ins_avatar_url row
        = ''https://api.dicebear.com/7.x/pixel-art/svg?seed='' @ ins_user_id row @ ''&scale=100'')
 \<and> (Personas_insert row \<in> set (CreatePersona_handleSubmit env usr g) \<longrightarrow>
      usr = Some (User (ins_user_id row))
    \<and> (\<exists>req. agent_data (invoke_create_agent env req) = Some (AgentData (ins_agent_id row)))
    \<and> ins_conversation_link row
        = ''https://elevenlabs.io/app/talk-to?agent_id='' @ ins_agent_id row
    \<and> ins_avatar_url row
        = ''https://api.dicebear.com/7.x/pixel-art/svg?seed='' @ ins_user_id row @ ''&scale=100'')"
proof (intro conjI impI)
  assume run: "Personas_insert row \<in> set (SignUp_handleSubmit is_email origin env f)"
  then obtain u req where u: "data_user (signUp env req) = Some u"
    and ins: "Personas_insert row \<in> set (fst (SignUp_try env f u))"
    using SignUp_handleSubmit_insert by blast
  note facts = SignUp_try_insert [OF ins]
  from facts u show "\<exists>req. data_user (signUp env req) = Some (User (ins_user_id row))"
    by (cases u) auto
  from facts show "\<exists>req. agent_data (invoke_create_agent env req)
      = Some (AgentData (ins_agent_id row))"
    by (metis agent_data.collapse)
  from facts show "ins_conversation_link row
      = ''https://elevenlabs.io/app/talk-to?agent_id='' @ ins_agent_id row"
    by blast
  from facts show "ins_avatar_url row
      = ''https://api.dicebear.com/7.x/pixel-art/svg?seed='' @ ins_user_id row @ ''&scale=100''"
    by blast
next
  assume run: "Personas_insert row \<in> set (CreatePersona_handleSubmit env usr g)"
  then obtain u fn ln where u: "usr = Some u"
    and ins: "Personas_insert row \<in> set (fst (CreatePersona_provision env g u fn ln))"
    using CreatePersona_handleSubmit_insert by blast
  note facts = CreatePersona_provision_insert [OF ins]
  from facts u show "usr = Some (User (ins_user_id row))"
    by (cases u) auto
  from facts show "\<exists>req. agent_data (invoke_create_agent env req)
      = Some (AgentData (ins_agent_id row))"
    by (metis agent_data.collapse)
  from facts show "ins_conversation_link row
      = ''https://elevenlabs.io/app/talk-to?agent_id='' @ ins_agent_id row"
    by blast
  from facts show "ins_avatar_url row
      = ''https://api.dicebear.com/7.x/pixel-art/svg?seed='' @ ins_user_id row @ ''&scale=100''"
    by blast
qed


text \<open>
  For the agent id \<open>abc123\<close> and the identity \<open>u1\<close> both handlers send the literal
  URLs of the specification.
\<close>

theorem derived_links_witness:
  "Personas_insert \<lparr> ins_user_id = ''u1'', ins_is_public = True,
       ins_elevenlabs_api_key = ''sk_live_1'', ins_agent_id = ''abc123'',
       ins_conversation_link = ''https://elevenlabs.io/app/talk-to?agent_id=abc123'',
       ins_avatar_url = ''https://api.dicebear.com/7.x/pixel-art/svg?seed=u1&scale=100'' \<rparr>
     \<in> set (SignUp_handleSubmit example_is_email ''https://app.example'' example_remote
          example_signup_form)
   \<and> Personas_insert \<lparr> ins_user_id = ''u1'', ins_is_public = False,
       ins_elevenlabs_api_key = ''sk_live_1'', ins_agent_id = ''abc123'',
       ins_conversation_link = ''https://elevenlabs.io/app/talk-to?agent_id=abc123'',
       ins_avatar_url = ''https://api.dicebear.com/7.x/pixel-art/svg?seed=u1&scale=100'' \<rparr>
     \<in> set (CreatePersona_handleSubmit example_remote (Some (User ''u1'')) example_persona_form)
   \<and> ''https://elevenlabs.io/app/talk-to?agent_id=abc123''
       = ''https://elevenlabs.io/app/talk-to?agent_id='' @ ''abc123''
   \<and> ''https://api.dicebear.com/7.x/pixel-art/svg?seed=u1&scale=100''
       = ''https://api.dicebear.com/7.x/pixel-art/svg?seed='' @ ''u1'' @ ''&scale=100''"
proof -
  let ?r1 = "\<lparr> ins_user_id = ''u1'', ins_is_public = True,
       ins_elevenlabs_api_key = ''sk_live_1'', ins_agent_id = ''abc123'',
       ins_conversation_link = ''https://elevenlabs.io/app/talk-to?agent_id=abc123'',
       ins_avatar_url = ''https://api.dicebear.com/7.x/pixel-art/svg?seed=u1&scale=100'' \<rparr>"
  let ?r2 = "?r1 \<lparr> ins_is_public := False \<rparr>"
  have m1: "Personas_insert ?r1 \<in> set (SignUp_handleSubmit example_is_email
      ''https://app.example'' example_remote example_signup_form)"
    by (simp add: example_signup_run)
  have m2: "Personas_insert ?r2 \<in> set (CreatePersona_handleSubmit example_remote
      (Some (User ''u1'')) example_persona_form)"
    by (simp add: example_create_run)
  from m1 derived_links [of ?r1 example_is_email "''https://app.example''" example_remote
      example_signup_form]
  have "ins_conversation_link ?r1 = ''https://elevenlabs.io/app/talk-to?agent_id='' @ ins_agent_id ?r1
      \<and> ins_avatar_url ?r1
        = ''https://api.dicebear.com/7.x/pixel-art/svg?seed='' @ ins_user_id ?r1 @ ''&scale=100''"
    by blast
  moreover from m2 derived_links [where row = ?r2 and env = example_remote
      and usr = "Some (User ''u1'')" and g = example_persona_form]
  have "ins_conversation_link ?r2 = ''https://elevenlabs.io/app/talk-to?agent_id='' @ ins_agent_id ?r2
      \<and> ins_avatar_url ?r2
        = ''https://api.dicebear.com/7.x/pixel-art/svg?seed='' @ ins_user_id ?r2 @ ''&scale=100''"
    by blast
  ultimately show ?thesis using m1 m2 by simp
qed

section \<open>Sign-up: validation\<close>

text \<open>The error record built from the issues, and when the schema accepts.\<close>

lemma fieldErrors_of_safeParse:
  "fieldErrors_of (signUpSchema_safeParse is_email f) Map.empty =
     (\<lambda>k. if k = ''email'' then (if is_email (email f) then None
                                  else Some ''Please enter a valid email address'')
          else if k = ''password'' then (if 8 \<le> length (password f) then None
                                  else Some ''Password must be at least 8 characters'')
          else if k = ''firstName'' then (if firstName f = [] then Some ''First name is required''
                                  else None)
          else if k = ''lastName'' then (if lastName f = [] then Some ''Last name is required''
                                  else None)
          else None)"
  by (rule ext) (simp add: signUpSchema_safeParse_def Suc_le_eq)

lemma safeParse_success:
  "signUpSchema_safeParse is_email f = [] \<longleftrightarrow>
     is_email (email f) \<and> 8 \<le> length (password f) \<and> firstName f \<noteq> [] \<and> lastName f \<noteq> []"
  by (simp add: signUpSchema_safeParse_def Suc_le_eq)


text \<open>
  Claim C3, as the code has it. A sign-up submission that violates a local constraint (the
  email is not shaped as an email, the password has fewer than 8 characters, the first or
  the last name is empty, the trimmed resume text is empty, or the API key is empty) stops
  at once and reaches no remote service: no identity creation, no agent provisioning, no
  store write. A violation of the schema (email, password, names) is reported as a
  field-indexed validation error: the error record, keyed by field name, holds the message
  of every violated field and nothing else. An empty trimmed resume, and after it an empty
  API key, is looked at only when the schema accepts, and is reported by a notice
  (\<open>Resume Required\<close>, \<open>API Key Required\<close>) while the error record stays empty.
\<close>

theorem validation_stops_before_network:
  assumes "\<not> is_email (email f) \<or> length (password f) < 8 \<or> firstName f = []
         \<or> lastName f = [] \<or> trim (resumeText f) = [] \<or> elevenLabsApiKey f = []"
  shows "network_calls (SignUp_handleSubmit is_email origin env f) = []
    \<and> (if \<not> is_email (email f) \<or> length (password f) < 8 \<or> firstName f = [] \<or> lastName f = []
       then \<exists>fieldErrors.
              SignUp_handleSubmit is_email origin env f
                = [SetErrors Map.empty, SetErrors fieldErrors]
            \<and> fieldErrors ''email''
                = (if is_email (email f) then None else Some ''Please enter a valid email address'')
            \<and> fieldErrors ''password''
                = (if length (password f) < 8 then Some ''Password must be at least 8 characters''
                   else None)
            \<and> fieldErrors ''firstName''
                = (if firstName f = [] then Some ''First name is required'' else None)
            \<and> fieldErrors ''lastName''
                = (if lastName f = [] then Some ''Last name is required'' else None)
            \<and> dom fieldErrors \<subseteq> {''email'', ''password'', ''firstName'', ''lastName''}
       else if trim (resumeText f) = []
       then SignUp_handleSubmit is_email origin env f
              = [SetErrors Map.empty,
                 ShowToast \<lparr> title = ''Resume Required'',
                    description = ''Please paste your resume or upload a document.'',
                    variant = Destructive \<rparr>]
       else SignUp_handleSubmit is_email origin env f
              = [SetErrors Map.empty,
                 ShowToast \<lparr> title = ''API Key Required'',
                    description = ''Please provide your ElevenLabs API key.'',
                    variant = Destructive \<rparr>])"
proof (cases "signUpSchema_safeParse is_email f = []")
  case True
  then have ok: "is_email (email f)" "8 \<le> length (password f)" "firstName f \<noteq> []"
      "lastName f \<noteq> []"
    by (simp_all add: safeParse_success)
  with assms have rest: "trim (resumeText f) = [] \<or> elevenLabsApiKey f = []"
    by auto
  show ?thesis
  proof (cases "trim (resumeText f) = []")
    case blank: True
    with True ok show ?thesis
      by (simp add: SignUp_handleSubmit_def network_calls_def)
  next
    case False
    with rest have "elevenLabsApiKey f = []" by simp
    with True False ok show ?thesis
      by (simp add: SignUp_handleSubmit_def network_calls_def)
  qed
next
  case False
  then have bad: "\<not> is_email (email f) \<or> length (password f) < 8 \<or> firstName f = []
      \<or> lastName f = []"
    by (auto simp: safeParse_success)
  have run: "SignUp_handleSubmit is_email origin env f
      = [SetErrors Map.empty,
         SetErrors (fieldErrors_of (signUpSchema_safeParse is_email f) Map.empty)]"
    using False by (simp add: SignUp_handleSubmit_def)
  have "dom (fieldErrors_of (signUpSchema_safeParse is_email f) Map.empty)
      \<subseteq> {''email'', ''password'', ''firstName'', ''lastName''}"
    unfolding fieldErrors_of_safeParse by (auto split: if_splits)
  moreover have "network_calls (SignUp_handleSubmit is_email origin env f) = []"
    unfolding run by (simp add: network_calls_def)
  ultimately show ?thesis
    using bad run by (simp add: fieldErrors_of_safeParse not_less)
qed

text \<open>A short password, a blank resume and a missing API key, each on an otherwise valid form.\<close>

theorem validation_stops_before_network_witness:
  "length (password (example_signup_form \<lparr> password := ''short'' \<rparr>)) < 8
   \<and> network_calls (SignUp_handleSubmit example_is_email ''https://app.example'' example_remote
        (example_signup_form \<lparr> password := ''short'' \<rparr>)) = []
   \<and> trim (resumeText (example_signup_form \<lparr> resumeText := ''   '' \<rparr>)) = []
   \<and> SignUp_handleSubmit example_is_email ''https://app.example'' example_remote
        (example_signup_form \<lparr> resumeText := ''   '' \<rparr>)
       = [SetErrors Map.empty,
          ShowToast \<lparr> title = ''Resume Required'',
             description = ''Please paste your resume or upload a document.'',
             variant = Destructive \<rparr>]
   \<and> elevenLabsApiKey (example_signup_form \<lparr> elevenLabsApiKey := [] \<rparr>) = []
   \<and> SignUp_handleSubmit example_is_email ''https://app.example'' example_remote
        (example_signup_form \<lparr> elevenLabsApiKey := [] \<rparr>)
       = [SetErrors Map.empty,
          ShowToast \<lparr> title = ''API Key Required'',
             description = ''Please provide your ElevenLabs API key.'',
             variant = Destructive \<rparr>]"
proof -
  let ?f1 = "example_signup_form \<lparr> password := ''short'' \<rparr>"
  let ?f2 = "example_signup_form \<lparr> resumeText := ''   '' \<rparr>"
  let ?f3 = "example_signup_form \<lparr> elevenLabsApiKey := [] \<rparr>"
  have h1: "length (password ?f1) < 8" by simp
  have h2: "trim (resumeText ?f2) = []" by (simp add: trim_def is_white_space_def)
  have h3: "elevenLabsApiKey ?f3 = []" by simp
  have c1: "network_calls (SignUp_handleSubmit example_is_email ''https://app.example''
      example_remote ?f1) = []"
    using validation_stops_before_network [of example_is_email ?f1 "''https://app.example''"
        example_remote] h1
    by blast
  have c2: "SignUp_handleSubmit example_is_email ''https://app.example'' example_remote ?f2
       = [SetErrors Map.empty,
          ShowToast \<lparr> title = ''Resume Required'',
             description = ''Please paste your resume or upload a document.'',
             variant = Destructive \<rparr>]"
    using validation_stops_before_network [of example_is_email ?f2 "''https://app.example''"
        example_remote] h2
    by (simp add: example_signup_form_def SignUp_initial_def example_is_email_def)
  have c3: "SignUp_handleSubmit example_is_email ''https://app.example'' example_remote ?f3
       = [SetErrors Map.empty,
          ShowToast \<lparr> title = ''API Key Required'',
             description = ''Please provide your ElevenLabs API key.'',
             variant = Destructive \<rparr>]"
    using validation_stops_before_network [of example_is_email ?f3 "''https://app.example''"
        example_remote] h3
    by (simp add: example_signup_form_def SignUp_initial_def example_is_email_def trim_def
          is_white_space_def)
  from h1 h2 h3 c1 c2 c3 show ?thesis by blast
qed

text \<open>
  Claim C3 as stated fails for the resume and the API key: on an otherwise valid form a
  blank resume, or a missing key, leaves the error record as empty as the page started
  with; the only report is a notice.
\<close>

theorem blank_resume_counterexample:
  "toasts (SignUp_handleSubmit example_is_email ''https://app.example'' example_remote
      (example_signup_form \<lparr> resumeText := ''   '' \<rparr>))
     = [\<lparr> title = ''Resume Required'',
          description = ''Please paste your resume or upload a document.'',
          variant = Destructive \<rparr>]
   \<and> errors_after initial_errors
       (SignUp_handleSubmit example_is_email ''https://app.example'' example_remote
          (example_signup_form \<lparr> resumeText := ''   '' \<rparr>))
     = initial_errors
   \<and> toasts (SignUp_handleSubmit example_is_email ''https://app.example'' example_remote
      (example_signup_form \<lparr> elevenLabsApiKey := [] \<rparr>))
     = [\<lparr> title = ''API Key Required'',
          description = ''Please provide your ElevenLabs API key.'',
          variant = Destructive \<rparr>]
   \<and> errors_after initial_errors
       (SignUp_handleSubmit example_is_email ''https://app.example'' example_remote
          (example_signup_form \<lparr> elevenLabsApiKey := [] \<rparr>))
     = initial_errors"
  by (simp add: SignUp_handleSubmit_def example_is_email_def example_signup_form_def
        SignUp_initial_def signUpSchema_safeParse_def trim_def is_white_space_def
        initial_errors_def Let_def)

section \<open>Sign-up: failures of the remote steps\<close>

text \<open>
  Claim C4. When identity creation succeeds and agent provisioning fails, the handler
  reports the error to the user and stops: the only remote calls of the run are the
  identity creation and the agent request. No profile update and no persona insert is
  attempted, and nothing is sent that would remove the identity again, so the identity
  stays although no persona row exists.
\<close>

theorem provisioning_failure_leaves_identity:
  assumes valid: "is_email (email f)" "8 \<le> length (password f)" "firstName f \<noteq> []"
      "lastName f \<noteq> []" "trim (resumeText f) \<noteq> []" "elevenLabsApiKey f \<noteq> []"
    and sreq: "sreq = \<lparr> req_email = email f, req_password = password f,
        req_first_name = firstName f, req_last_name = lastName f,
        req_emailRedirectTo = origin @ ''/'' \<rparr>"
    and areq: "areq = \<lparr> body_resume_text = resumeText f, body_first_name = firstName f,
        body_last_name = lastName f, body_elevenlabs_api_key = elevenLabsApiKey f \<rparr>"
    and identity: "auth_error (signUp env sreq) = None" "data_user (signUp env sreq) = Some u"
    and agent: "agent_error (invoke_create_agent env areq) = Some e"
  shows "SignUp_handleSubmit is_email origin env f =
     [SetErrors Map.empty, SetIsLoading True, Auth_signUp sreq,
      Functions_invoke ''create-agent'' areq,
      SetIsLoading False,
      ShowToast \<lparr> title = ''Error Creating Persona'',
         description = or_else (message e) ''An unexpected error occurred.'',
         variant = Destructive \<rparr>]
   \<and> network_calls (SignUp_handleSubmit is_email origin env f) =
     [Auth_signUp sreq, Functions_invoke ''create-agent'' areq]"
proof -
  have parse: "signUpSchema_safeParse is_email f = []"
    using valid by (simp add: safeParse_success)
  have body: "SignUp_try env f u = ([Functions_invoke ''create-agent'' areq], Some e)"
    using agent unfolding areq by (simp add: SignUp_try_def)
  have run: "SignUp_handleSubmit is_email origin env f =
     [SetErrors Map.empty, SetIsLoading True, Auth_signUp sreq,
      Functions_invoke ''create-agent'' areq,
      SetIsLoading False,
      ShowToast \<lparr> title = ''Error Creating Persona'',
         description = or_else (message e) ''An unexpected error occurred.'',
         variant = Destructive \<rparr>]"
    using parse valid(5,6) identity body unfolding sreq
    by (simp add: SignUp_handleSubmit_def)
  show ?thesis unfolding run by (simp add: network_calls_def)
qed

text \<open>The provisioner rejects the request of a freshly created identity.\<close>

theorem provisioning_failure_leaves_identity_witness:
  "network_calls (SignUp_handleSubmit example_is_email ''https://app.example''
      (failing_agent ''quota exceeded'') example_signup_form)
   = [Auth_signUp \<lparr> req_email = ''ada@example.com'', req_password = ''correct horse'',
        req_first_name = ''Ada'', req_last_name = ''Byron'',
        req_emailRedirectTo = ''https://app.example/'' \<rparr>,
      Functions_invoke ''create-agent''
        \<lparr> body_resume_text = ''Engineer, ten years.'', body_first_name = ''Ada'',
          body_last_name = ''Byron'', body_elevenlabs_api_key = ''sk_live_1'' \<rparr>]
   \<and> toasts (SignUp_handleSubmit example_is_email ''https://app.example''
      (failing_agent ''quota exceeded'') example_signup_form)
   = [\<lparr> title = ''Error Creating Persona'', description = ''quota exceeded'',
        variant = Destructive \<rparr>]"
proof -
  note run = provisioning_failure_leaves_identity
    [where is_email = example_is_email and f = example_signup_form
       and origin = "''https://app.example''" and env = "failing_agent ''quota exceeded''"
       and u = "User ''u1''" and e = "Error ''quota exceeded''", OF _ _ _ _ _ _ refl refl]
  have run': "SignUp_handleSubmit example_is_email ''https://app.example''
      (failing_agent ''quota exceeded'') example_signup_form =
     [SetErrors Map.empty, SetIsLoading True,
      Auth_signUp \<lparr> req_email = ''ada@example.com'', req_password = ''correct horse'',
        req_first_name = ''Ada'', req_last_name = ''Byron'',
        req_emailRedirectTo = ''https://app.example/'' \<rparr>,
      Functions_invoke ''create-agent''
        \<lparr> body_resume_text = ''Engineer, ten years.'', body_first_name = ''Ada'',
          body_last_name = ''Byron'', body_elevenlabs_api_key = ''sk_live_1'' \<rparr>,
      SetIsLoading False,
      ShowToast \<lparr> title = ''Error Creating Persona'',
         description = ''quota exceeded'', variant = Destructive \<rparr>]"
    using run
    by (simp add: example_is_email_def example_signup_form_def SignUp_initial_def
          failing_agent_def trim_def is_white_space_def or_else_def)
  show ?thesis unfolding run' by (simp add: network_calls_def)
qed

text \<open>The run of the sign-up handler when identity creation fails.\<close>

lemma SignUp_identity_failure_run:
  assumes valid: "is_email (email f)" "8 \<le> length (password f)" "firstName f \<noteq> []"
      "lastName f \<noteq> []" "trim (resumeText f) \<noteq> []" "elevenLabsApiKey f \<noteq> []"
    and sreq: "sreq = \<lparr> req_email = email f, req_password = password f,
        req_first_name = firstName f, req_last_name = lastName f,
        req_emailRedirectTo = origin @ ''/'' \<rparr>"
    and failure: "auth_error (signUp env sreq) = Some e"
  shows "SignUp_handleSubmit is_email origin env f =
     [SetErrors Map.empty, SetIsLoading True, Auth_signUp sreq, SetIsLoading False,
      ShowToast \<lparr> title = ''Sign up failed'',
         description = (if message e = ''User already registered''
            then ''An account with this email already exists. Please sign in.''
            else message e),
         variant = Destructive \<rparr>]"
proof -
  have parse: "signUpSchema_safeParse is_email f = []"
    using valid by (simp add: safeParse_success)
  show ?thesis
    using parse valid(5,6) failure unfolding sreq
    by (simp add: SignUp_handleSubmit_def)
qed

text \<open>
  Claim C5. Every sign-up run in which identity creation fails ends with one destructive
  notice \<open>Sign up failed\<close> and makes no remote call but the identity creation: no agent
  provisioning and no persona insert. A duplicate account (the provider's message
  \<open>User already registered\<close>) is reported with the page's own sentence; a failure of
  another cause, one whose message is neither the provider's duplicate message nor the
  sentence by which the page itself announces a duplicate account, is reported with the
  provider's message, and that report differs from the report of the duplicate account.
\<close>

theorem identity_failure_aborts:
  assumes valid: "is_email (email f)" "8 \<le> length (password f)" "firstName f \<noteq> []"
      "lastName f \<noteq> []" "trim (resumeText f) \<noteq> []" "elevenLabsApiKey f \<noteq> []"
    and sreq: "sreq = \<lparr> req_email = email f, req_password = password f,
        req_first_name = firstName f, req_last_name = lastName f,
        req_emailRedirectTo = origin @ ''/'' \<rparr>"
    and failure: "auth_error (signUp env sreq) = Some e"
    and duplicate: "auth_error (signUp env_dup sreq) = Some e_dup"
      "message e_dup = ''User already registered''"
  shows "network_calls (SignUp_handleSubmit is_email origin env f) = [Auth_signUp sreq]
   \<and> (\<exists>d. toasts (SignUp_handleSubmit is_email origin env f)
           = [\<lparr> title = ''Sign up failed'', description = d, variant = Destructive \<rparr>])
   \<and> network_calls (SignUp_handleSubmit is_email origin env_dup f) = [Auth_signUp sreq]
   \<and> toasts (SignUp_handleSubmit is_email origin env_dup f)
       = [\<lparr> title = ''Sign up failed'',
            description = ''An account with this email already exists. Please sign in.'',
            variant = Destructive \<rparr>]
   \<and> (message e \<noteq> ''User already registered''
        \<and> message e \<noteq> ''An account with this email already exists. Please sign in.''
      \<longrightarrow> toasts (SignUp_handleSubmit is_email origin env f)
            = [\<lparr> title = ''Sign up failed'', description = message e,
                 variant = Destructive \<rparr>]
        \<and> toasts (SignUp_handleSubmit is_email origin env f)
            \<noteq> toasts (SignUp_handleSubmit is_email origin env_dup f))"
proof -
  note run = SignUp_identity_failure_run
    [where is_email = is_email and f = f and origin = origin, OF valid sreq failure]
  note run_dup = SignUp_identity_failure_run
    [where is_email = is_email and f = f and origin = origin, OF valid sreq duplicate(1)]
  show ?thesis
    unfolding run run_dup using duplicate(2) by (simp add: network_calls_def)
qed

text \<open>A closed registration against a duplicate account: both abort, and the reports differ.\<close>

theorem identity_failure_aborts_witness:
  "network_calls (SignUp_handleSubmit example_is_email ''https://app.example''
      (failing_signUp ''Signups not allowed'') example_signup_form)
   = [Auth_signUp \<lparr> req_email = ''ada@example.com'', req_password = ''correct horse'',
        req_first_name = ''Ada'', req_last_name = ''Byron'',
        req_emailRedirectTo = ''https://app.example/'' \<rparr>]
   \<and> toasts (SignUp_handleSubmit example_is_email ''https://app.example''
      (failing_signUp ''User already registered'') example_signup_form)
   = [\<lparr> title = ''Sign up failed'',
        description = ''An account with this email already exists. Please sign in.'',
        variant = Destructive \<rparr>]
   \<and> toasts (SignUp_handleSubmit example_is_email ''https://app.example''
      (failing_signUp ''Signups not allowed'') example_signup_form)
   = [\<lparr> title = ''Sign up failed'', description = ''Signups not allowed'',
        variant = Destructive \<rparr>]
   \<and> toasts (SignUp_handleSubmit example_is_email ''https://app.example''
      (failing_signUp ''Signups not allowed'') example_signup_form)
   \<noteq> toasts (SignUp_handleSubmit example_is_email ''https://app.example''
      (failing_signUp ''User already registered'') example_signup_form)"
proof -
  have valid: "example_is_email (email example_signup_form)"
      "8 \<le> length (password example_signup_form)" "firstName example_signup_form \<noteq> []"
      "lastName example_signup_form \<noteq> []" "trim (resumeText example_signup_form) \<noteq> []"
      "elevenLabsApiKey example_signup_form \<noteq> []"
    by (simp_all add: example_is_email_def example_signup_form_def SignUp_initial_def trim_def
          is_white_space_def)
  have failure: "auth_error (signUp (failing_signUp ''Signups not allowed'')
        \<lparr> req_email = email example_signup_form, req_password = password example_signup_form,
          req_first_name = firstName example_signup_form,
          req_last_name = lastName example_signup_form,
          req_emailRedirectTo = ''https://app.example'' @ ''/'' \<rparr>)
      = Some (Error ''Signups not allowed'')"
    by (simp add: failing_signUp_def)
  have duplicate: "auth_error (signUp (failing_signUp ''User already registered'')
        \<lparr> req_email = email example_signup_form, req_password = password example_signup_form,
          req_first_name = firstName example_signup_form,
          req_last_name = lastName example_signup_form,
          req_emailRedirectTo = ''https://app.example'' @ ''/'' \<rparr>)
      = Some (Error ''User already registered'')"
    by (simp add: failing_signUp_def)
  have other: "message (Error ''Signups not allowed'') \<noteq> ''User already registered''
      \<and> message (Error ''Signups not allowed'')
        \<noteq> ''An account with this email already exists. Please sign in.''"
    by simp
  from identity_failure_aborts
    [where is_email = example_is_email and f = example_signup_form
       and origin = "''https://app.example''", OF valid refl failure duplicate] other
  show ?thesis
    by (simp add: example_signup_form_def SignUp_initial_def)
qed

section \<open>Create-persona: order of the steps\<close>

text \<open>The two ways the profile check of the \<open>try\<close> block can go.\<close>

lemma CreatePersona_try_missing_names:
  assumes "\<not> (truthy (Option.bind (select_profile_names env (user_id u)) first_name)
            \<and> truthy (Option.bind (select_profile_names env (user_id u)) last_name))"
  shows "CreatePersona_try env f u = ([Profiles_select_names (user_id u)], Some missing_names_error)"
  using assms
  by (auto simp: CreatePersona_try_def truthy_def Let_def split: option.splits)

lemma CreatePersona_try_with_names:
  assumes "select_profile_names env (user_id u) = Some profile"
    and "first_name profile = Some fn" and "last_name profile = Some ln"
    and "fn \<noteq> []" and "ln \<noteq> []"
  shows "CreatePersona_try env f u =
     (Profiles_select_names (user_id u) # fst (CreatePersona_provision env f u fn ln),
      snd (CreatePersona_provision env f u fn ln))"
  using assms
  by (simp add: CreatePersona_try_def Let_def split: prod.splits)

text \<open>
  Claim C6, as the code has it. On a submission that passes the form checks, the
  create-persona handler first reads the identity's profile; if the first or the last
  name is missing or empty it stops with a descriptive error and no agent call is made.
  Otherwise it requests the agent, derives the links, inserts the persona row, and only
  after a successful insert updates the profile with the agent id and link; the result
  of that update is not looked at. A failed insert is reported, and the profile update is
  then not attempted.
\<close>

theorem create_persona_steps:
  assumes form: "trim (resumeText f) \<noteq> []" "trim (elevenLabsApiKey f) \<noteq> []"
    and areq: "areq = \<lparr> body_resume_text = resumeText f, body_first_name = fn,
        body_last_name = ln, body_elevenlabs_api_key = elevenLabsApiKey f \<rparr>"
    and row: "row = \<lparr> ins_user_id = user_id u, ins_is_public = (isPublic f = ''public''),
        ins_elevenlabs_api_key = elevenLabsApiKey f, ins_agent_id = a,
        ins_conversation_link = ''https://elevenlabs.io/app/talk-to?agent_id='' @ a,
        ins_avatar_url = ''https://api.dicebear.com/7.x/pixel-art/svg?seed='' @ user_id u
           @ ''&scale=100'' \<rparr>"
    and patch: "patch = \<lparr> patch_elevenlabs_agent_id = a,
        patch_elevenlabs_agent_link = ''https://elevenlabs.io/app/talk-to?agent_id='' @ a \<rparr>"
  shows
   "(\<not> (truthy (Option.bind (select_profile_names env (user_id u)) first_name)
        \<and> truthy (Option.bind (select_profile_names env (user_id u)) last_name)) \<longrightarrow>
       network_calls (CreatePersona_handleSubmit env (Some u) f)
         = [Profiles_select_names (user_id u)]
     \<and> toasts (CreatePersona_handleSubmit env (Some u) f)
         = [\<lparr> title = ''Error'',
              description = ''Please ensure your profile has a first and last name.'',
              variant = Destructive \<rparr>])
  \<and> (select_profile_names env (user_id u) = Some \<lparr> first_name = Some fn, last_name = Some ln \<rparr>
       \<and> fn \<noteq> [] \<and> ln \<noteq> []
       \<and> invoke_create_agent env areq = \<lparr> agent_data = Some (AgentData a), agent_error = None \<rparr>
      \<longrightarrow>
       (insert_persona env row = None \<longrightarrow>
          network_calls (CreatePersona_handleSubmit env (Some u) f)
            = [Profiles_select_names (user_id u), Functions_invoke ''create-agent'' areq,
               Personas_insert row, Profiles_update patch (user_id u)]
        \<and> toasts (CreatePersona_handleSubmit env (Some u) f)
            = [\<lparr> title = ''Success!'', description = ''Your persona is ready.'',
                 variant = Default_variant \<rparr>])
     \<and> (\<forall>e. insert_persona env row = Some e \<longrightarrow>
          network_calls (CreatePersona_handleSubmit env (Some u) f)
            = [Profiles_select_names (user_id u), Functions_invoke ''create-agent'' areq,
               Personas_insert row]
        \<and> toasts (CreatePersona_handleSubmit env (Some u) f)
            = [\<lparr> title = ''Error'', description = message e, variant = Destructive \<rparr>]))"
proof (intro conjI impI allI)
  assume "\<not> (truthy (Option.bind (select_profile_names env (user_id u)) first_name)
        \<and> truthy (Option.bind (select_profile_names env (user_id u)) last_name))"
  note body = CreatePersona_try_missing_names [OF this, of f]
  show "network_calls (CreatePersona_handleSubmit env (Some u) f)
      = [Profiles_select_names (user_id u)]"
    using form body by (simp add: CreatePersona_handleSubmit_def network_calls_def)
  show "toasts (CreatePersona_handleSubmit env (Some u) f)
      = [\<lparr> title = ''Error'',
           description = ''Please ensure your profile has a first and last name.'',
           variant = Destructive \<rparr>]"
    using form body by (simp add: CreatePersona_handleSubmit_def missing_names_error_def)
next
  assume ok: "select_profile_names env (user_id u)
        = Some \<lparr> first_name = Some fn, last_name = Some ln \<rparr>
      \<and> fn \<noteq> [] \<and> ln \<noteq> []
      \<and> invoke_create_agent env areq = \<lparr> agent_data = Some (AgentData a), agent_error = None \<rparr>"
  then have body: "CreatePersona_try env f u =
     (Profiles_select_names (user_id u) # fst (CreatePersona_provision env f u fn ln),
      snd (CreatePersona_provision env f u fn ln))"
    by (intro CreatePersona_try_with_names [where profile = "\<lparr> first_name = Some fn,
        last_name = Some ln \<rparr>"]) simp_all
  from ok have agent: "invoke_create_agent env
      \<lparr> body_resume_text = resumeText f, body_first_name = fn,
        body_last_name = ln, body_elevenlabs_api_key = elevenLabsApiKey f \<rparr>
      = \<lparr> agent_data = Some (AgentData a), agent_error = None \<rparr>"
    unfolding areq by simp
  {
    assume ins: "insert_persona env row = None"
    have prov: "CreatePersona_provision env f u fn ln =
       ([Functions_invoke ''create-agent'' areq, Personas_insert row,
         Profiles_update patch (user_id u),
         SetPersonaOutput Success ''Persona created successfully! Redirecting...'',
         ShowToast \<lparr> title = ''Success!'', description = ''Your persona is ready.'',
            variant = Default_variant \<rparr>,
         NavigateAfter 2000 ''/account''], None)"
      using agent ins unfolding areq row patch
      by (simp add: CreatePersona_provision_def Let_def)
    show "network_calls (CreatePersona_handleSubmit env (Some u) f)
        = [Profiles_select_names (user_id u), Functions_invoke ''create-agent'' areq,
           Personas_insert row, Profiles_update patch (user_id u)]"
      using form body prov by (simp add: CreatePersona_handleSubmit_def network_calls_def)
    show "toasts (CreatePersona_handleSubmit env (Some u) f)
        = [\<lparr> title = ''Success!'', description = ''Your persona is ready.'',
             variant = Default_variant \<rparr>]"
      using form body prov by (simp add: CreatePersona_handleSubmit_def)
  }
  {
    fix e
    assume ins: "insert_persona env row = Some e"
    have prov: "CreatePersona_provision env f u fn ln =
       ([Functions_invoke ''create-agent'' areq, Personas_insert row], Some e)"
      using agent ins unfolding areq row patch
      by (simp add: CreatePersona_provision_def Let_def)
    show "network_calls (CreatePersona_handleSubmit env (Some u) f)
        = [Profiles_select_names (user_id u), Functions_invoke ''create-agent'' areq,
           Personas_insert row]"
      using form body prov by (simp add: CreatePersona_handleSubmit_def network_calls_def)
    show "toasts (CreatePersona_handleSubmit env (Some u) f)
        = [\<lparr> title = ''Error'', description = message e, variant = Destructive \<rparr>]"
      using form body prov by (simp add: CreatePersona_handleSubmit_def)
  }
qed

text \<open>A profile without a last name, a run in which every service succeeds, and a rejected insert.\<close>

theorem create_persona_steps_witness:
  "network_calls (CreatePersona_handleSubmit nameless_profile (Some (User ''u1''))
      example_persona_form) = [Profiles_select_names ''u1'']
 \<and> toasts (CreatePersona_handleSubmit nameless_profile (Some (User ''u1''))
      example_persona_form)
     = [\<lparr> title = ''Error'',
          description = ''Please ensure your profile has a first and last name.'',
          variant = Destructive \<rparr>]
 \<and> toasts (CreatePersona_handleSubmit example_remote (Some (User ''u1''))
      example_persona_form)
     = [\<lparr> title = ''Success!'', description = ''Your persona is ready.'',
          variant = Default_variant \<rparr>]
 \<and> network_calls (CreatePersona_handleSubmit (failing_insert ''row violates policy'')
      (Some (User ''u1'')) example_persona_form)
     = [Profiles_select_names ''u1'',
        Functions_invoke ''create-agent''
          \<lparr> body_resume_text = ''Engineer, ten years.'', body_first_name = ''Ada'',
            body_last_name = ''Byron'', body_elevenlabs_api_key = ''sk_live_1'' \<rparr>,
        Personas_insert \<lparr> ins_user_id = ''u1'', ins_is_public = False,
          ins_elevenlabs_api_key = ''sk_live_1'', ins_agent_id = ''abc123'',
          ins_conversation_link = ''https://elevenlabs.io/app/talk-to?agent_id=abc123'',
          ins_avatar_url = ''https://api.dicebear.com/7.x/pixel-art/svg?seed=u1&scale=100'' \<rparr>]
 \<and> toasts (CreatePersona_handleSubmit (failing_insert ''row violates policy'')
      (Some (User ''u1'')) example_persona_form)
     = [\<lparr> title = ''Error'', description = ''row violates policy'', variant = Destructive \<rparr>]"
proof -
  have form: "trim (resumeText example_persona_form) \<noteq> []"
      "trim (elevenLabsApiKey example_persona_form) \<noteq> []"
    by (simp_all add: example_persona_form_def CreatePersona_initial_def trim_def
          is_white_space_def)
  note missing = create_persona_steps
    [where f = example_persona_form and env = nameless_profile and u = "User ''u1''"
       and a = "''abc123''" and fn = "''Ada''" and ln = "''Byron''",
     OF form refl refl refl, THEN conjunct1]
  note present = create_persona_steps
    [where f = example_persona_form and env = example_remote and u = "User ''u1''"
       and a = "''abc123''" and fn = "''Ada''" and ln = "''Byron''",
     OF form refl refl refl, THEN conjunct2]
  note rejected = create_persona_steps
    [where f = example_persona_form and env = "failing_insert ''row violates policy''"
       and u = "User ''u1''" and a = "''abc123''" and fn = "''Ada''" and ln = "''Byron''",
     OF form refl refl refl, THEN conjunct2]
  have a: "network_calls (CreatePersona_handleSubmit nameless_profile (Some (User ''u1''))
      example_persona_form) = [Profiles_select_names ''u1'']
   \<and> toasts (CreatePersona_handleSubmit nameless_profile (Some (User ''u1''))
      example_persona_form)
     = [\<lparr> title = ''Error'',
          description = ''Please ensure your profile has a first and last name.'',
          variant = Destructive \<rparr>]"
    using missing by (simp add: nameless_profile_def example_remote_def truthy_def)
  have b: "toasts (CreatePersona_handleSubmit example_remote (Some (User ''u1''))
      example_persona_form)
     = [\<lparr> title = ''Success!'', description = ''Your persona is ready.'',
          variant = Default_variant \<rparr>]"
    using present by (simp add: example_remote_def)
  have c: "network_calls (CreatePersona_handleSubmit (failing_insert ''row violates policy'')
      (Some (User ''u1'')) example_persona_form)
     = [Profiles_select_names ''u1'',
        Functions_invoke ''create-agent''
          \<lparr> body_resume_text = ''Engineer, ten years.'', body_first_name = ''Ada'',
            body_last_name = ''Byron'', body_elevenlabs_api_key = ''sk_live_1'' \<rparr>,
        Personas_insert \<lparr> ins_user_id = ''u1'', ins_is_public = False,
          ins_elevenlabs_api_key = ''sk_live_1'', ins_agent_id = ''abc123'',
          ins_conversation_link = ''https://elevenlabs.io/app/talk-to?agent_id=abc123'',
          ins_avatar_url = ''https://api.dicebear.com/7.x/pixel-art/svg?seed=u1&scale=100'' \<rparr>]
   \<and> toasts (CreatePersona_handleSubmit (failing_insert ''row violates policy'')
      (Some (User ''u1'')) example_persona_form)
     = [\<lparr> title = ''Error'', description = ''row violates policy'', variant = Destructive \<rparr>]"
    using rejected
    by (simp add: failing_insert_def example_remote_def example_persona_form_def
          CreatePersona_initial_def)
  from a b c show ?thesis by blast
qed

text \<open>
  Claim C6 as stated fails on the order of the last two steps: in a run where every
  service succeeds the persona insert comes before the profile update.
\<close>

theorem create_persona_order_counterexample:
  "network_calls (CreatePersona_handleSubmit example_remote (Some (User ''u1''))
      example_persona_form)
   = [Profiles_select_names ''u1'',
      Functions_invoke ''create-agent''
        \<lparr> body_resume_text = ''Engineer, ten years.'', body_first_name = ''Ada'',
          body_last_name = ''Byron'', body_elevenlabs_api_key = ''sk_live_1'' \<rparr>,
      Personas_insert \<lparr> ins_user_id = ''u1'', ins_is_public = False,
          ins_elevenlabs_api_key = ''sk_live_1'', ins_agent_id = ''abc123'',
          ins_conversation_link = ''https://elevenlabs.io/app/talk-to?agent_id=abc123'',
          ins_avatar_url = ''https://api.dicebear.com/7.x/pixel-art/svg?seed=u1&scale=100'' \<rparr>,
      Profiles_update \<lparr> patch_elevenlabs_agent_id = ''abc123'',
          patch_elevenlabs_agent_link = ''https://elevenlabs.io/app/talk-to?agent_id=abc123'' \<rparr>
        ''u1'']"
  by (simp add: example_create_run network_calls_def)

section \<open>Visibility toggle\<close>

text \<open>The effect of the update on the table, row by row, and the two outcomes of a save.\<close>

lemma update_length [simp]:
  "length (personas_update_is_public uid pid v now rows) = length rows"
  by (simp add: personas_update_is_public_def)

lemma update_nth:
  assumes "i < length rows"
  shows "personas_update_is_public uid pid v now rows ! i =
     (if row_id (rows ! i) = pid \<and> uid = Some (row_user_id (rows ! i))
      then (rows ! i) \<lparr> row_is_public := v, row_updated_at := now \<rparr>
      else rows ! i)"
  using assms
  by (auto simp: personas_update_is_public_def select_policy_def
        Users_can_view_their_own_persona_def Users_can_update_their_own_persona_def
        update_updated_at_column_def)

lemma handleVisibilitySave_table:
  assumes "handleVisibilitySave fault uid now (st, rows) = ((st', rows'), evs)"
  shows "rows' = (case persona st of
                    None \<Rightarrow> rows
                  | Some p \<Rightarrow>
                     (case fault of
                        Some e \<Rightarrow> rows
                      | None \<Rightarrow> personas_update_is_public uid (p_id p)
                                  (visibility st = ''public'') now rows))"
  using assms
  by (auto simp: handleVisibilitySave_def personas_update_call_def Let_def
           split: option.splits)

lemma visibility_label_public [simp]: "(visibility_label b = ''public'') = b"
  by (simp add: visibility_label_def)

lemma handleVisibilitySave_acknowledged:
  assumes "persona st = Some p"
  shows "handleVisibilitySave None uid now (st, rows) =
     ((st \<lparr> saving := False,
            persona := Some (p \<lparr> p_is_public := (visibility st = ''public'') \<rparr>) \<rparr>,
       personas_update_is_public uid (p_id p) (visibility st = ''public'') now rows),
      [SetSaving True, Personas_update_is_public (visibility st = ''public'') (p_id p),
       SetSaving False,
       ShowToast \<lparr> title = ''Saved'', description = ''Visibility settings updated.'',
          variant = Default_variant \<rparr>,
       SetPersona (p \<lparr> p_is_public := (visibility st = ''public'') \<rparr>)])"
  using assms by (simp add: handleVisibilitySave_def personas_update_call_def Let_def)

lemma handleVisibilitySave_failed:
  assumes "persona st = Some p"
  shows "handleVisibilitySave (Some e) uid now (st, rows) =
     ((st \<lparr> saving := False \<rparr>, rows),
      [SetSaving True, Personas_update_is_public (visibility st = ''public'') (p_id p),
       SetSaving False,
       ShowToast \<lparr> title = ''Error'', description = ''Could not update visibility.'',
          variant = Destructive \<rparr>])"
  using assms by (simp add: handleVisibilitySave_def personas_update_call_def Let_def)

text \<open>The owner \<open>u1\<close> saves the selection \<open>private\<close> at time 30.\<close>

lemma example_toggle_off:
  "handleVisibilitySave None (Some ''u1'') 30
     (example_account \<lparr> visibility := visibility_label False \<rparr>, example_rows)
   = ((example_account \<lparr> visibility := ''private'',
          persona := Some \<lparr> p_id = ''p1'', p_is_public = False,
            p_updated_at = ''2025-12-23'',
            p_avatar_url = Some ''https://api.dicebear.com/7.x/pixel-art/svg?seed=u1&scale=100'',
            p_conversation_link = Some ''https://elevenlabs.io/app/talk-to?agent_id=abc123'' \<rparr> \<rparr>,
       [(example_rows ! 0) \<lparr> row_is_public := False, row_updated_at := 30 \<rparr>,
        example_rows ! 1]),
      [SetSaving True, Personas_update_is_public False ''p1'', SetSaving False,
       ShowToast \<lparr> title = ''Saved'', description = ''Visibility settings updated.'',
          variant = Default_variant \<rparr>,
       SetPersona \<lparr> p_id = ''p1'', p_is_public = False, p_updated_at = ''2025-12-23'',
         p_avatar_url = Some ''https://api.dicebear.com/7.x/pixel-art/svg?seed=u1&scale=100'',
         p_conversation_link = Some ''https://elevenlabs.io/app/talk-to?agent_id=abc123'' \<rparr>])"
  by (simp add: handleVisibilitySave_def personas_update_call_def personas_update_is_public_def
        select_policy_def Users_can_view_their_own_persona_def
        Users_can_update_their_own_persona_def Anyone_can_view_public_personas_def
        update_updated_at_column_def example_account_def example_rows_def visibility_label_def
        Let_def)

text \<open>
  Claim C7. A save of the visibility selection changes the persona shown on the page only
  as its last step, after the store has acknowledged the update; when the update fails
  the persona shown and the table are as before and an error notice is raised. At the
  store, selecting the opposite of a stored value \<open>b\<close> and saving, then selecting \<open>b\<close>
  again and saving, both acknowledged, takes the owner's row to \<open>\<not> b\<close> and back: every
  row whose \<open>is_public\<close> was \<open>b\<close> has \<open>is_public = b\<close> afterwards, whichever value \<open>b\<close> is.
\<close>

theorem visibility_toggle:
  assumes p: "persona st = Some p"
    and first: "handleVisibilitySave fault1 uid t1
        (st \<lparr> visibility := visibility_label (\<not> b) \<rparr>, rows) = ((st1, rows1), evs1)"
    and second: "handleVisibilitySave fault2 uid t2
        (st1 \<lparr> visibility := visibility_label b \<rparr>, rows1) = ((st2, rows2), evs2)"
  shows "(fault1 = None \<longrightarrow>
            evs1 = [SetSaving True, Personas_update_is_public (\<not> b) (p_id p), SetSaving False,
                    ShowToast \<lparr> title = ''Saved'',
                       description = ''Visibility settings updated.'',
                       variant = Default_variant \<rparr>,
                    SetPersona (p \<lparr> p_is_public := \<not> b \<rparr>)]
          \<and> persona st1 = Some (p \<lparr> p_is_public := \<not> b \<rparr>))
   \<and> (\<forall>e. fault1 = Some e \<longrightarrow>
            evs1 = [SetSaving True, Personas_update_is_public (\<not> b) (p_id p), SetSaving False,
                    ShowToast \<lparr> title = ''Error'',
                       description = ''Could not update visibility.'',
                       variant = Destructive \<rparr>]
          \<and> st1 = st \<lparr> visibility := visibility_label (\<not> b), saving := False \<rparr>
          \<and> persona st1 = persona st \<and> rows1 = rows)
   \<and> (fault1 = None \<and> fault2 = None \<longrightarrow>
          persona st2 = Some (p \<lparr> p_is_public := b \<rparr>)
        \<and> length rows2 = length rows
        \<and> (\<forall>i < length rows.
              (row_id (rows ! i) = p_id p \<and> uid = Some (row_user_id (rows ! i))
                 \<longrightarrow> row_is_public (rows1 ! i) = (\<not> b))
            \<and> (row_is_public (rows ! i) = b \<longrightarrow> row_is_public (rows2 ! i) = b)))"
proof (intro conjI impI allI)
  assume ok: "fault1 = None"
  from first p show "evs1 = [SetSaving True, Personas_update_is_public (\<not> b) (p_id p),
       SetSaving False,
       ShowToast \<lparr> title = ''Saved'', description = ''Visibility settings updated.'',
          variant = Default_variant \<rparr>,
       SetPersona (p \<lparr> p_is_public := \<not> b \<rparr>)]"
    unfolding ok by (simp add: handleVisibilitySave_acknowledged [where p = p])
  from first p show "persona st1 = Some (p \<lparr> p_is_public := \<not> b \<rparr>)"
    unfolding ok by (auto simp: handleVisibilitySave_acknowledged [where p = p])
next
  fix e assume failed: "fault1 = Some e"
  from first p show "evs1 = [SetSaving True, Personas_update_is_public (\<not> b) (p_id p),
       SetSaving False,
       ShowToast \<lparr> title = ''Error'', description = ''Could not update visibility.'',
          variant = Destructive \<rparr>]"
    unfolding failed by (simp add: handleVisibilitySave_failed [where p = p])
  from first p show "st1 = st \<lparr> visibility := visibility_label (\<not> b), saving := False \<rparr>"
    unfolding failed by (auto simp: handleVisibilitySave_failed [where p = p])
  from first p show "persona st1 = persona st"
    unfolding failed by (auto simp: handleVisibilitySave_failed [where p = p])
  from first p show "rows1 = rows"
    unfolding failed by (simp add: handleVisibilitySave_failed [where p = p])
next
  assume "fault1 = None \<and> fault2 = None"
  then have ok: "fault1 = None" "fault2 = None" by simp_all
  from first p have st1: "persona st1 = Some (p \<lparr> p_is_public := \<not> b \<rparr>)"
    and rows1: "rows1 = personas_update_is_public uid (p_id p) (\<not> b) t1 rows"
    unfolding ok by (auto simp: handleVisibilitySave_acknowledged [where p = p])
  from second st1 have st2: "persona st2 = Some (p \<lparr> p_is_public := b \<rparr>)"
    and rows2: "rows2 = personas_update_is_public uid (p_id p) b t2 rows1"
    unfolding ok
    by (auto simp: handleVisibilitySave_acknowledged [where p = "p \<lparr> p_is_public := \<not> b \<rparr>"])
  from st2 show "persona st2 = Some (p \<lparr> p_is_public := b \<rparr>)" .
  from rows1 rows2 show "length rows2 = length rows" by simp
  {
    fix i assume i: "i < length rows"
    {
      assume "row_id (rows ! i) = p_id p \<and> uid = Some (row_user_id (rows ! i))"
      with i rows1 show "row_is_public (rows1 ! i) = (\<not> b)"
        by (simp add: update_nth)
    }
    {
      assume "row_is_public (rows ! i) = b"
      with i rows1 rows2 show "row_is_public (rows2 ! i) = b"
        by (simp add: update_nth)
    }
  }
qed

text \<open>The owner \<open>u1\<close> switches the public persona to private and back.\<close>

theorem visibility_toggle_witness:
  "persona example_account \<noteq> None
   \<and> row_is_public (example_rows ! 0) = True
   \<and> row_is_public
       (snd (fst (handleVisibilitySave None (Some ''u1'') 30
          (example_account \<lparr> visibility := visibility_label False \<rparr>, example_rows))) ! 0)
       = False
   \<and> row_is_public
       (snd (fst (handleVisibilitySave None (Some ''u1'') 40
          (fst (fst (handleVisibilitySave None (Some ''u1'') 30
              (example_account \<lparr> visibility := visibility_label False \<rparr>, example_rows)))
             \<lparr> visibility := visibility_label True \<rparr>,
           snd (fst (handleVisibilitySave None (Some ''u1'') 30
              (example_account \<lparr> visibility := visibility_label False \<rparr>, example_rows)))))) ! 0)
       = True"
proof -
  let ?run1 = "handleVisibilitySave None (Some ''u1'') 30
      (example_account \<lparr> visibility := visibility_label False \<rparr>, example_rows)"
  let ?run2 = "handleVisibilitySave None (Some ''u1'') 40
      (fst (fst ?run1) \<lparr> visibility := visibility_label True \<rparr>, snd (fst ?run1))"
  let ?p = "\<lparr> p_id = ''p1'', p_is_public = True, p_updated_at = ''2025-12-23'',
      p_avatar_url = Some ''https://api.dicebear.com/7.x/pixel-art/svg?seed=u1&scale=100'',
      p_conversation_link = Some ''https://elevenlabs.io/app/talk-to?agent_id=abc123'' \<rparr>"
  have p: "persona example_account = Some ?p"
    by (simp add: example_account_def)
  have first: "handleVisibilitySave None (Some ''u1'') 30
      (example_account \<lparr> visibility := visibility_label (\<not> True) \<rparr>, example_rows)
      = ((fst (fst ?run1), snd (fst ?run1)), snd ?run1)"
    by simp
  have second: "?run2 = ((fst (fst ?run2), snd (fst ?run2)), snd ?run2)"
    by simp
  have own: "(0::nat) < length example_rows" "row_id (example_rows ! 0) = p_id ?p"
      "Some ''u1'' = Some (row_user_id (example_rows ! 0))"
      "row_is_public (example_rows ! 0) = True"
    by (simp_all add: example_rows_def)
  from visibility_toggle [OF p first second] own
  have "row_is_public (snd (fst ?run1) ! 0) = (\<not> True)
      \<and> row_is_public (snd (fst ?run2) ! 0) = True"
    by blast
  with p own show ?thesis by simp
qed

text \<open>
  Claim C9. The update issued by the visibility toggle leaves the table with the same
  rows in the same places. In every row \<open>id\<close>, \<open>user_id\<close>, \<open>elevenlabs_api_key\<close>,
  \<open>agent_id\<close>, \<open>conversation_link\<close>, \<open>avatar_url\<close> and \<open>created_at\<close> are as before;
  a row either is unchanged or differs exactly in \<open>is_public\<close>, which holds the
  selected value, and in \<open>updated_at\<close>, which the trigger sets to the time of the update.
  A row that changes has the id of the selected persona, and since ids are unique at most
  one row changes.
\<close>

theorem visibility_update_frame:
  assumes run: "handleVisibilitySave fault uid now (st, rows) = ((st', rows'), evs)"
    and i: "i < length rows"
  shows "length rows' = length rows
   \<and> row_id (rows' ! i) = row_id (rows ! i)
   \<and> row_user_id (rows' ! i) = row_user_id (rows ! i)
   \<and> row_elevenlabs_api_key (rows' ! i) = row_elevenlabs_api_key (rows ! i)
   \<and> row_agent_id (rows' ! i) = row_agent_id (rows ! i)
   \<and> row_conversation_link (rows' ! i) = row_conversation_link (rows ! i)
   \<and> row_avatar_url (rows' ! i) = row_avatar_url (rows ! i)
   \<and> row_created_at (rows' ! i) = row_created_at (rows ! i)
   \<and> (rows' ! i = rows ! i
       \<or> rows' ! i = (rows ! i) \<lparr> row_is_public := (visibility st = ''public''),
                                 row_updated_at := now \<rparr>)
   \<and> (rows' ! i \<noteq> rows ! i \<longrightarrow> (\<exists>p. persona st = Some p \<and> row_id (rows ! i) = p_id p))
   \<and> (distinct (map row_id rows) \<longrightarrow>
        (\<forall>j < length rows. rows' ! i \<noteq> rows ! i \<and> rows' ! j \<noteq> rows ! j \<longrightarrow> i = j))"
proof -
  note tab = handleVisibilitySave_table [OF run]
  have changed: "\<exists>p. persona st = Some p \<and> row_id (rows ! j) = p_id p"
    if "j < length rows" and "rows' ! j \<noteq> rows ! j" for j
    using that tab by (auto simp: update_nth split: option.splits if_splits)
  have single: "i = j"
    if "distinct (map row_id rows)" and "j < length rows"
      and "rows' ! i \<noteq> rows ! i" and "rows' ! j \<noteq> rows ! j" for j
  proof -
    from changed [OF i that(3)] changed [OF that(2,4)]
    have "row_id (rows ! i) = row_id (rows ! j)" by auto
    then have "map row_id rows ! i = map row_id rows ! j"
      using i that(2) by simp
    moreover have "i < length (map row_id rows)" "j < length (map row_id rows)"
      using i that(2) by simp_all
    ultimately show "i = j"
      using that(1) nth_eq_iff_index_eq by blast
  qed
  have fields: "length rows' = length rows
    \<and> row_id (rows' ! i) = row_id (rows ! i)
    \<and> row_user_id (rows' ! i) = row_user_id (rows ! i)
    \<and> row_elevenlabs_api_key (rows' ! i) = row_elevenlabs_api_key (rows ! i)
    \<and> row_agent_id (rows' ! i) = row_agent_id (rows ! i)
    \<and> row_conversation_link (rows' ! i) = row_conversation_link (rows ! i)
    \<and> row_avatar_url (rows' ! i) = row_avatar_url (rows ! i)
    \<and> row_created_at (rows' ! i) = row_created_at (rows ! i)
    \<and> (rows' ! i = rows ! i
       \<or> rows' ! i = (rows ! i) \<lparr> row_is_public := (visibility st = ''public''),
                                 row_updated_at := now \<rparr>)"
    using tab i by (auto simp: update_nth split: option.splits)
  from fields changed [OF i] single show ?thesis by blast
qed

text \<open>The same first save, looked at row by row: the key and the owner of the row stay, the other row is untouched.\<close>

theorem visibility_update_frame_witness:
  "snd (fst (handleVisibilitySave None (Some ''u1'') 30
       (example_account \<lparr> visibility := visibility_label False \<rparr>, example_rows)))
     = [(example_rows ! 0) \<lparr> row_is_public := False, row_updated_at := 30 \<rparr>, example_rows ! 1]
   \<and> (0::nat) < length example_rows \<and> (1::nat) < length example_rows
   \<and> distinct (map row_id example_rows)
   \<and> row_elevenlabs_api_key ((example_rows ! 0) \<lparr> row_is_public := False, row_updated_at := 30 \<rparr>)
       = row_elevenlabs_api_key (example_rows ! 0)
   \<and> row_user_id ((example_rows ! 0) \<lparr> row_is_public := False, row_updated_at := 30 \<rparr>)
       = row_user_id (example_rows ! 0)
   \<and> [(example_rows ! 0) \<lparr> row_is_public := False, row_updated_at := 30 \<rparr>,
        example_rows ! 1] ! 1 = example_rows ! 1"
proof -
  have len: "(0::nat) < length example_rows" "(1::nat) < length example_rows"
    and ids: "distinct (map row_id example_rows)"
    by (simp_all add: example_rows_def)
  note frame0 = visibility_update_frame [OF example_toggle_off len(1)]
  note frame1 = visibility_update_frame [OF example_toggle_off len(2)]
  from frame0 have keep: "row_elevenlabs_api_key
        ((example_rows ! 0) \<lparr> row_is_public := False, row_updated_at := 30 \<rparr>)
       = row_elevenlabs_api_key (example_rows ! 0)
     \<and> row_user_id ((example_rows ! 0) \<lparr> row_is_public := False, row_updated_at := 30 \<rparr>)
       = row_user_id (example_rows ! 0)"
    by simp
  from frame1 have other: "[(example_rows ! 0) \<lparr> row_is_public := False, row_updated_at := 30 \<rparr>,
        example_rows ! 1] ! 1 = example_rows ! 1"
    by simp
  from len ids keep other show ?thesis by (simp add: example_toggle_off)
qed

section \<open>Initial visibility selection\<close>

text \<open>
  Claim C10. As long as the user leaves the visibility selection as the page initialises
  it, a persona row inserted by the sign-up handler has \<open>is_public = true\<close> (the form starts
  on \<open>public\<close>), and one inserted by the create-persona handler has \<open>is_public = false\<close>
  (the form starts on \<open>private\<close>); the default of the column in the store is \<open>false\<close>.
\<close>

theorem initial_visibility:
  "(isPublic f = isPublic SignUp_initial
      \<and> Personas_insert row \<in> set (SignUp_handleSubmit is_email origin env f)
      \<longrightarrow> ins_is_public row = True)
 \<and> (isPublic g = isPublic CreatePersona_initial
      \<and> Personas_insert row' \<in> set (CreatePersona_handleSubmit env' usr g)
      \<longrightarrow> ins_is_public row' = False)
 \<and> is_public_default = False"
proof (intro conjI impI)
  assume "isPublic f = isPublic SignUp_initial
      \<and> Personas_insert row \<in> set (SignUp_handleSubmit is_email origin env f)"
  then have sel: "isPublic f = ''public''"
    and run: "Personas_insert row \<in> set (SignUp_handleSubmit is_email origin env f)"
    by (simp_all add: SignUp_initial_def)
  from run obtain u where "Personas_insert row \<in> set (fst (SignUp_try env f u))"
    using SignUp_handleSubmit_insert by blast
  from SignUp_try_insert [OF this] sel show "ins_is_public row = True"
    by simp
next
  assume "isPublic g = isPublic CreatePersona_initial
      \<and> Personas_insert row' \<in> set (CreatePersona_handleSubmit env' usr g)"
  then have sel: "isPublic g = ''private''"
    and run: "Personas_insert row' \<in> set (CreatePersona_handleSubmit env' usr g)"
    by (simp_all add: CreatePersona_initial_def)
  from run obtain u fn ln
    where "Personas_insert row' \<in> set (fst (CreatePersona_provision env' g u fn ln))"
    using CreatePersona_handleSubmit_insert by blast
  from CreatePersona_provision_insert [OF this] sel show "ins_is_public row' = False"
    by simp
next
  show "is_public_default = False" by (simp add: is_public_default_def)
qed

text \<open>Both example forms keep the initial selection, and both runs insert a row.\<close>

theorem initial_visibility_witness:
  "isPublic example_signup_form = isPublic SignUp_initial
 \<and> Personas_insert \<lparr> ins_user_id = ''u1'', ins_is_public = True,
       ins_elevenlabs_api_key = ''sk_live_1'', ins_agent_id = ''abc123'',
       ins_conversation_link = ''https://elevenlabs.io/app/talk-to?agent_id=abc123'',
       ins_avatar_url = ''https://api.dicebear.com/7.x/pixel-art/svg?seed=u1&scale=100'' \<rparr>
     \<in> set (SignUp_handleSubmit example_is_email ''https://app.example'' example_remote
          example_signup_form)
 \<and> isPublic example_persona_form = isPublic CreatePersona_initial
 \<and> Personas_insert \<lparr> ins_user_id = ''u1'', ins_is_public = False,
       ins_elevenlabs_api_key = ''sk_live_1'', ins_agent_id = ''abc123'',
       ins_conversation_link = ''https://elevenlabs.io/app/talk-to?agent_id=abc123'',
       ins_avatar_url = ''https://api.dicebear.com/7.x/pixel-art/svg?seed=u1&scale=100'' \<rparr>
     \<in> set (CreatePersona_handleSubmit example_remote (Some (User ''u1'')) example_persona_form)
 \<and> is_public_default = False"
proof -
  let ?r1 = "\<lparr> ins_user_id = ''u1'', ins_is_public = True,
       ins_elevenlabs_api_key = ''sk_live_1'', ins_agent_id = ''abc123'',
       ins_conversation_link = ''https://elevenlabs.io/app/talk-to?agent_id=abc123'',
       ins_avatar_url = ''https://api.dicebear.com/7.x/pixel-art/svg?seed=u1&scale=100'' \<rparr>"
  let ?r2 = "?r1 \<lparr> ins_is_public := False \<rparr>"
  have s: "isPublic example_signup_form = isPublic SignUp_initial"
    by (simp add: example_signup_form_def)
  have c: "isPublic example_persona_form = isPublic CreatePersona_initial"
    by (simp add: example_persona_form_def)
  have m1: "Personas_insert ?r1 \<in> set (SignUp_handleSubmit example_is_email
      ''https://app.example'' example_remote example_signup_form)"
    by (simp add: example_signup_run)
  have m2: "Personas_insert ?r2 \<in> set (CreatePersona_handleSubmit example_remote
      (Some (User ''u1'')) example_persona_form)"
    by (simp add: example_create_run)
  note inst = initial_visibility
    [where f = example_signup_form and row = ?r1 and is_email = example_is_email
       and origin = "''https://app.example''" and env = example_remote
       and g = example_persona_form and row' = ?r2 and env' = example_remote
       and usr = "Some (User ''u1'')"]
  from inst s m1 c m2 have "ins_is_public ?r1 = True \<and> ins_is_public ?r2 = False
      \<and> is_public_default = False"
    by blast
  with s c m1 m2 show ?thesis by simp
qed

section \<open>Reading personas\<close>




section \<open>Public listing\<close>

text \<open>The list the page ends up with.\<close>

lemma displayed_fetchPublicPersonas:
  "displayed ps0 (fetchPublicPersonas res) =
     (case fetch_error res of
        Some e \<Rightarrow> []
      | None \<Rightarrow> map formattedPersona
                 (filter (\<lambda>p. truthy (fetched_agent_id p))
                    (case fetch_data res of None \<Rightarrow> [] | Some d \<Rightarrow> d)))"
  by (simp add: fetchPublicPersonas_def split: option.splits)

text \<open>
  Claim C8, as the code has it. The listing page issues one query. When it succeeds the
  page shows, in the order of the response, exactly the rows whose agent id is neither
  \<open>null\<close> nor the empty string, and raises no notice; every entry shown carries the id,
  the avatar URL and the agent id of its row, and a conversation link that is the fixed
  prefix followed by the agent id. When the fetch fails the page shows no entry and one
  error notice.
\<close>

theorem public_listing:
  "network_calls (fetchPublicPersonas res) = [Personas_select_public]
   \<and> (fetch_error res = None \<longrightarrow>
         map pp_id (displayed ps0 (fetchPublicPersonas res))
           = map fetched_id
               (filter (\<lambda>p. fetched_agent_id p \<noteq> None \<and> fetched_agent_id p \<noteq> Some [])
                  (case fetch_data res of None \<Rightarrow> [] | Some d \<Rightarrow> d))
       \<and> toasts (fetchPublicPersonas res) = [])
   \<and> (\<forall>e \<in> set (displayed ps0 (fetchPublicPersonas res)).
         \<exists>d p a. fetch_data res = Some d \<and> p \<in> set d
           \<and> pp_id e = fetched_id p \<and> pp_avatar_url e = fetched_avatar_url p
           \<and> fetched_agent_id p = Some a \<and> a \<noteq> [] \<and> pp_agent_id e = Some a
           \<and> pp_conversation_link e = ''https://elevenlabs.io/app/talk-to?agent_id='' @ a)
   \<and> (fetch_error res \<noteq> None \<longrightarrow>
         displayed ps0 (fetchPublicPersonas res) = []
       \<and> toasts (fetchPublicPersonas res)
           = [\<lparr> title = ''Error'', description = ''Could not fetch public personas.'',
                variant = Destructive \<rparr>])"
proof (intro conjI impI ballI)
  show "network_calls (fetchPublicPersonas res) = [Personas_select_public]"
    by (simp add: fetchPublicPersonas_def network_calls_def split: option.splits)
next
  assume ok: "fetch_error res = None"
  have same: "(\<lambda>p. truthy (fetched_agent_id p))
      = (\<lambda>p. fetched_agent_id p \<noteq> None \<and> fetched_agent_id p \<noteq> Some [])"
    by (rule ext) (simp add: truthy_def split: option.splits)
  show "map pp_id (displayed ps0 (fetchPublicPersonas res))
      = map fetched_id
          (filter (\<lambda>p. fetched_agent_id p \<noteq> None \<and> fetched_agent_id p \<noteq> Some [])
             (case fetch_data res of None \<Rightarrow> [] | Some d \<Rightarrow> d))"
    unfolding displayed_fetchPublicPersonas same using ok
    by (simp add: formattedPersona_def comp_def)
  show "toasts (fetchPublicPersonas res) = []"
    using ok by (simp add: fetchPublicPersonas_def)
next
  fix e assume "e \<in> set (displayed ps0 (fetchPublicPersonas res))"
  then obtain p d where d: "fetch_data res = Some d" and p: "p \<in> set d"
    and t: "truthy (fetched_agent_id p)" and e: "e = formattedPersona p"
    unfolding displayed_fetchPublicPersonas
    by (cases "fetch_error res"; cases "fetch_data res") auto
  from t obtain a where a: "fetched_agent_id p = Some a" "a \<noteq> []"
    by (auto simp: truthy_def split: option.splits)
  from d p a e show "\<exists>d p a. fetch_data res = Some d \<and> p \<in> set d
      \<and> pp_id e = fetched_id p \<and> pp_avatar_url e = fetched_avatar_url p
      \<and> fetched_agent_id p = Some a \<and> a \<noteq> [] \<and> pp_agent_id e = Some a
      \<and> pp_conversation_link e = ''https://elevenlabs.io/app/talk-to?agent_id='' @ a"
    by (intro exI [of _ d] exI [of _ p] exI [of _ a])
       (simp add: formattedPersona_def interpolate_def)
next
  assume "fetch_error res \<noteq> None"
  then obtain err where err: "fetch_error res = Some err" by auto
  show "displayed ps0 (fetchPublicPersonas res) = []"
    unfolding displayed_fetchPublicPersonas using err by simp
  show "toasts (fetchPublicPersonas res)
      = [\<lparr> title = ''Error'', description = ''Could not fetch public personas.'',
           variant = Destructive \<rparr>]"
    using err by (simp add: fetchPublicPersonas_def)
qed

text \<open>A response of two rows, one without agent id, gives one entry; a failed fetch gives none and a notice.\<close>

theorem public_listing_witness:
  "fetch_error example_fetch = None
   \<and> displayed [] (fetchPublicPersonas example_fetch)
       = [\<lparr> pp_id = ''p1'',
            pp_avatar_url = Some ''https://api.dicebear.com/7.x/pixel-art/svg?seed=u1&scale=100'',
            pp_agent_id = Some ''abc123'',
            pp_conversation_link = ''https://elevenlabs.io/app/talk-to?agent_id=abc123'' \<rparr>]
   \<and> map pp_id (displayed [] (fetchPublicPersonas example_fetch)) = [''p1'']
   \<and> fetch_error failed_fetch \<noteq> None
   \<and> displayed [] (fetchPublicPersonas failed_fetch) = []
   \<and> toasts (fetchPublicPersonas failed_fetch)
       = [\<lparr> title = ''Error'', description = ''Could not fetch public personas.'',
            variant = Destructive \<rparr>]"
proof -
  have ok: "fetch_error example_fetch = None"
    by (simp add: example_fetch_def)
  have bad: "fetch_error failed_fetch \<noteq> None"
    by (simp add: failed_fetch_def)
  from public_listing [of example_fetch "[]"] ok
  have ids: "map pp_id (displayed [] (fetchPublicPersonas example_fetch)) = [''p1'']"
    by (simp add: example_fetch_def)
  from public_listing [of failed_fetch "[]"] bad
  have none: "displayed [] (fetchPublicPersonas failed_fetch) = []
      \<and> toasts (fetchPublicPersonas failed_fetch)
       = [\<lparr> title = ''Error'', description = ''Could not fetch public personas.'',
            variant = Destructive \<rparr>]"
    by blast
  have shown: "displayed [] (fetchPublicPersonas example_fetch)
       = [\<lparr> pp_id = ''p1'',
            pp_avatar_url = Some ''https://api.dicebear.com/7.x/pixel-art/svg?seed=u1&scale=100'',
            pp_agent_id = Some ''abc123'',
            pp_conversation_link = ''https://elevenlabs.io/app/talk-to?agent_id=abc123'' \<rparr>]"
    by (simp add: fetchPublicPersonas_def example_fetch_def truthy_def formattedPersona_def
          interpolate_def)
  from ok bad ids none shown show ?thesis by blast
qed

text \<open>
  Claim C8 as stated fails: of two rows, one with a \<open>null\<close> agent id and one whose
  agent id is the empty string, none is shown, although the second agent id is not
  \<open>null\<close>.
\<close>

theorem non_null_agent_counterexample:
  "fetch_error empty_agent_fetch = None
   \<and> fetch_data empty_agent_fetch
       = Some [\<lparr> fetched_id = ''p4'', fetched_avatar_url = None, fetched_agent_id = Some [] \<rparr>,
               \<lparr> fetched_id = ''p3'', fetched_avatar_url = None, fetched_agent_id = None \<rparr>]
   \<and> displayed [] (fetchPublicPersonas empty_agent_fetch) = []"
  by (simp add: fetchPublicPersonas_def empty_agent_fetch_def truthy_def)

end
